theory Spec2Isabelle
  imports Main "HOL-Library.Sublist"
begin

section \<open>Druta CLI: a shallow embedding of \<^verbatim>\<open>src/index.js\<close>\<close>

text \<open>
  The program scaffolds and removes component directories for three platforms.  Its
  own code is string interpolation and a handful of calls into Node's \<^verbatim>\<open>path\<close> and
  \<^verbatim>\<open>fs\<close> modules.  The embedding has three layers:

  \<^item> the JavaScript string methods the program calls (\<^verbatim>\<open>charAt\<close>, \<^verbatim>\<open>slice\<close>,
    \<^verbatim>\<open>toUpperCase\<close>, \<^verbatim>\<open>trim\<close>);
  \<^item> Node's POSIX \<^verbatim>\<open>path.join\<close> and the four \<^verbatim>\<open>fs\<close> calls, over a file
    system that is a tree of directories and regular files;
  \<^item> the functions of \<^verbatim>\<open>src/index.js\<close>, one definition each, under the source's
    names, threading the state of the process explicitly.

  A \<open>string\<close> is a list of UTF-16 code units, and a \<open>char\<close> stands for a code unit
  below 256 (Basic Latin and Latin-1).  On that range \<open>isWhiteSpace\<close> is the white space
  of ECMAScript.  \<open>toUpperCase\<close> is ECMAScript's on the ASCII code units only (above
  them some capitals lie outside the range, and one is two letters long), so what is
  proved about capitalisation is proved for an ASCII first character.  Permissions,
  symbolic links, name-length limits and a full disk are outside the file-system model;
  a regular file standing where a directory is needed is inside it, with the error code
  Linux reports.
\<close>

subsection \<open>JavaScript strings\<close>

definition charAt :: "string \<Rightarrow> nat \<Rightarrow> string" where
  "charAt s i = (if i < length s then [s ! i] else [])"

definition slice :: "string \<Rightarrow> nat \<Rightarrow> string" where
  "slice s start = drop start s"


definition lower_letters :: string where
  "lower_letters = ''abcdefghijklmnopqrstuvwxyz''"

definition upper_letters :: string where
  "upper_letters = ''ABCDEFGHIJKLMNOPQRSTUVWXYZ''"

definition upper_char :: "char \<Rightarrow> char" where
  "upper_char c =
     (case map_of (zip lower_letters upper_letters) c of Some u \<Rightarrow> u | None \<Rightarrow> c)"

definition toUpperCase :: "string \<Rightarrow> string" where
  "toUpperCase s = map upper_char s"

text \<open>
  What \<^verbatim>\<open>trim\<close> strips, among the code units below 256: tab, line feed, vertical tab,
  form feed, carriage return, space and the no-break space U+00A0.
\<close>

definition isWhiteSpace :: "char \<Rightarrow> bool" where
  "isWhiteSpace c =
     (c \<in> set [CHR 0x09, CHR 0x0A, CHR 0x0B, CHR 0x0C, CHR 0x0D, CHR 0x20, CHR 0xA0])"

definition trim :: "string \<Rightarrow> string" where
  "trim s = rev (dropWhile isWhiteSpace (rev (dropWhile isWhiteSpace s)))"

subsection \<open>Paths: \<^verbatim>\<open>path.join\<close> on POSIX\<close>

text \<open>
  An absolute path string is kept as the list of its segments and a flag for a trailing
  separator: \<^verbatim>\<open>/home/u/app/\<close> is \<open>\<lparr>segs = [''home'', ''u'', ''app''], trailing = True\<rparr>\<close>.
  \<^verbatim>\<open>path.join\<close> concatenates its non-empty arguments with \<^verbatim>\<open>/\<close> and normalises
  the result: empty and \<^verbatim>\<open>.\<close> segments vanish, \<^verbatim>\<open>..\<close> removes the segment before
  it (and is dropped at the root), a trailing separator survives.  The first argument
  is always an absolute path here (\<^verbatim>\<open>process.cwd()\<close>, or a path joined from it); the
  second is the component name or a file name, and an empty one is skipped.
\<close>

record path =
  segs :: "string list"
  trailing :: bool

fun split_sep :: "string \<Rightarrow> string list" where
  "split_sep [] = [[]]"
| "split_sep (c # cs) =
     (if c = CHR ''/'' then [] # split_sep cs
      else (case split_sep cs of [] \<Rightarrow> [[c]] | x # xs \<Rightarrow> (c # x) # xs))"

definition normalize_step :: "string list \<Rightarrow> string \<Rightarrow> string list" where
  "normalize_step res seg =
     (if seg = [] \<or> seg = ''.'' then res
      else if seg = ''..'' then butlast res
      else res @ [seg])"

definition normalizeString :: "string list \<Rightarrow> string list" where
  "normalizeString xs = foldl normalize_step [] xs"

definition path_join :: "path \<Rightarrow> string \<Rightarrow> path" where
  "path_join p arg =
     (let joined = (if arg = [] then segs p else segs p @ split_sep arg);
          trailingSeparator = (if arg = [] then trailing p else last arg = CHR ''/'');
          res = normalizeString joined
      in \<lparr>segs = res, trailing = (res \<noteq> [] \<and> trailingSeparator)\<rparr>)"

subsection \<open>The file system and the \<^verbatim>\<open>fs\<close> calls\<close>

datatype node = File string | Dir "string \<Rightarrow> node option"

type_synonym dir = "string \<Rightarrow> node option"

datatype errno = ENOENT | ENOTDIR | EEXIST | EISDIR | EBUSY

text \<open>The walk from the root directory along the segments of a path.\<close>

fun resolve :: "dir \<Rightarrow> string list \<Rightarrow> errno + node" where
  "resolve d [] = Inr (Dir d)"
| "resolve d (s # p) =
     (case d s of
        None \<Rightarrow> Inl ENOENT
      | Some (File c) \<Rightarrow> (if p = [] then Inr (File c) else Inl ENOTDIR)
      | Some (Dir d') \<Rightarrow> resolve d' p)"

text \<open>A trailing separator asks for a directory.\<close>

definition stat :: "dir \<Rightarrow> path \<Rightarrow> errno + node" where
  "stat d p =
     (case resolve d (segs p) of
        Inr (File c) \<Rightarrow> (if trailing p then Inl ENOTDIR else Inr (File c))
      | r \<Rightarrow> r)"

text \<open>\<^verbatim>\<open>mkdir\<close> with \<^verbatim>\<open>recursive: true\<close>: every missing directory on the way is created.\<close>

fun mkdirp :: "dir \<Rightarrow> string list \<Rightarrow> errno + dir" where
  "mkdirp d [] = Inr d"
| "mkdirp d (s # p) =
     (case d s of
        None \<Rightarrow>
          (case mkdirp (\<lambda>_. None) p of Inl e \<Rightarrow> Inl e | Inr d' \<Rightarrow> Inr (d(s \<mapsto> Dir d')))
      | Some (File c) \<Rightarrow> Inl (if p = [] then EEXIST else ENOTDIR)
      | Some (Dir d0) \<Rightarrow>
          (case mkdirp d0 p of Inl e \<Rightarrow> Inl e | Inr d' \<Rightarrow> Inr (d(s \<mapsto> Dir d'))))"

text \<open>Create or truncate a regular file; the directory that holds it must exist.\<close>

fun write_file :: "dir \<Rightarrow> string list \<Rightarrow> string \<Rightarrow> errno + dir" where
  "write_file d [] c = Inl EISDIR"
| "write_file d [s] c =
     (case d s of Some (Dir d0) \<Rightarrow> Inl EISDIR | _ \<Rightarrow> Inr (d(s \<mapsto> File c)))"
| "write_file d (s # p) c =
     (case d s of
        None \<Rightarrow> Inl ENOENT
      | Some (File c0) \<Rightarrow> Inl ENOTDIR
      | Some (Dir d0) \<Rightarrow>
          (case write_file d0 p c of Inl e \<Rightarrow> Inl e | Inr d' \<Rightarrow> Inr (d(s \<mapsto> Dir d'))))"

text \<open>
  Unlink the entry a path names, with everything below it.  The root has no entry that
  names it and stays as it is.
\<close>

fun rm_rf :: "dir \<Rightarrow> string list \<Rightarrow> dir" where
  "rm_rf d [] = d"
| "rm_rf d [s] = d(s := None)"
| "rm_rf d (s # p) =
     (case d s of Some (Dir d0) \<Rightarrow> d(s \<mapsto> Dir (rm_rf d0 p)) | _ \<Rightarrow> d)"

subsection \<open>The process\<close>

text \<open>
  What an \<^verbatim>\<open>Error\<close> object carries: the message of an error the program throws
  itself, or the code of an error raised by the \<^verbatim>\<open>fs\<close> module.
\<close>

datatype js_error = Error string | SystemError errno

datatype fs_call =
    ExistsSync path
  | MkdirSync path
  | WriteFileSync path string
  | RmSync path

text \<open>
  One constructor for each thing the program prints, with the values it interpolates:
  the two lines of \<^verbatim>\<open>welcome\<close>, the three argument errors, the usage block of
  \<^verbatim>\<open>displayHelp\<close>, the success and failure lines of \<^verbatim>\<open>addComponent\<close> and
  \<^verbatim>\<open>removeComponent\<close> (component name, platform; the caught error), and the message
  the prompt shows when \<^verbatim>\<open>validate\<close> rejects an input.
\<close>

datatype message =
    Title
  | Tagline
  | NotEnoughArguments
  | InvalidPlatform string
  | InvalidAction string
  | Help
  | SuccessfullyCreated string string
  | SuccessfullyRemoved string string
  | ErrorCreating js_error
  | ErrorRemoving js_error
  | PromptError string

text \<open>
  The state of a run: the working directory of the process, the file system below the
  root, the calls made into \<^verbatim>\<open>fs\<close> so far (oldest first) and what has been printed.
\<close>

record world =
  cwd :: path
  tree :: dir
  calls :: "fs_call list"
  console :: "message list"

definition called :: "fs_call \<Rightarrow> world \<Rightarrow> world" where
  "called c w = w\<lparr>calls := calls w @ [c]\<rparr>"

definition console_log :: "message \<Rightarrow> world \<Rightarrow> world" where
  "console_log m w = w\<lparr>console := console w @ [m]\<rparr>"

definition existsSync :: "path \<Rightarrow> world \<Rightarrow> bool \<times> world" where
  "existsSync p w =
     ((case stat (tree w) p of Inl e \<Rightarrow> False | Inr n \<Rightarrow> True), called (ExistsSync p) w)"

text \<open>
  \<^verbatim>\<open>mkdirSync\<close> with \<^verbatim>\<open>recursive: true\<close>.  A regular file named with a trailing
  separator is refused as not being a directory.
\<close>

definition mkdirSync :: "path \<Rightarrow> world \<Rightarrow> js_error option \<times> world" where
  "mkdirSync p w =
     (case mkdirp (tree w) (segs p) of
        Inl e \<Rightarrow>
          (Some (SystemError (if e = EEXIST \<and> trailing p then ENOTDIR else e)),
           called (MkdirSync p) w)
      | Inr d \<Rightarrow> (None, called (MkdirSync p) (w\<lparr>tree := d\<rparr>)))"

definition writeFileSync :: "path \<Rightarrow> string \<Rightarrow> world \<Rightarrow> js_error option \<times> world" where
  "writeFileSync p content w =
     (if trailing p then (Some (SystemError EISDIR), called (WriteFileSync p content) w)
      else case write_file (tree w) (segs p) content of
        Inl e \<Rightarrow> (Some (SystemError e), called (WriteFileSync p content) w)
      | Inr d \<Rightarrow> (None, called (WriteFileSync p content) (w\<lparr>tree := d\<rparr>)))"

text \<open>
  \<^verbatim>\<open>rmSync\<close> with \<^verbatim>\<open>recursive: true, force: true\<close>: a missing path is not an error.
  The root directory is refused with \<^verbatim>\<open>EBUSY\<close> before anything in it is touched.
\<close>

definition rmSync :: "path \<Rightarrow> world \<Rightarrow> js_error option \<times> world" where
  "rmSync p w =
     (case stat (tree w) p of
        Inl ENOENT \<Rightarrow> (None, called (RmSync p) w)
      | Inl e \<Rightarrow> (Some (SystemError e), called (RmSync p) w)
      | Inr n \<Rightarrow>
          (if segs p = [] then (Some (SystemError EBUSY), called (RmSync p) w)
           else (None, called (RmSync p) (w\<lparr>tree := rm_rf (tree w) (segs p)\<rparr>))))"

subsection \<open>The handlers of \<^verbatim>\<open>src/index.js\<close>\<close>

text \<open>
  A handler returns the error it throws, if any, and the state it leaves behind: a
  \<^verbatim>\<open>throw\<close> keeps whatever the calls before it have done.
\<close>

definition and_then ::
  "js_error option \<times> world \<Rightarrow> (world \<Rightarrow> js_error option \<times> world) \<Rightarrow> js_error option \<times> world"
where
  "and_then r f = (case r of (Some e, w) \<Rightarrow> (Some e, w) | (None, w) \<Rightarrow> f w)"

definition capitalized :: "string \<Rightarrow> string" where
  "capitalized componentName = toUpperCase (charAt componentName 0) @ slice componentName 1"

definition pageContent :: "string \<Rightarrow> string" where
  \<open>pageContent componentName =
     ''export default function '' @ capitalized componentName @ ''Page() {\<newline>'' @
     ''  return (\<newline>'' @
     ''    <div>\<newline>'' @
     ''      <h1>'' @ capitalized componentName @ '' Page</h1>\<newline>'' @
     ''      <p>This is the '' @ componentName @ '' page</p>\<newline>'' @
     ''    </div>\<newline>'' @
     ''  );\<newline>'' @
     ''}\<newline>''\<close>

definition layoutContent :: "string \<Rightarrow> string" where
  \<open>layoutContent componentName =
     ''export default function '' @ capitalized componentName @ ''Layout({\<newline>'' @
     ''  children,\<newline>'' @
     ''}: {\<newline>'' @
     ''  children: React.ReactNode;\<newline>'' @
     ''}) {\<newline>'' @
     ''  return (\<newline>'' @
     ''    <section>\<newline>'' @
     ''      {/* '' @ componentName @ '' layout */}\<newline>'' @
     ''      {children}\<newline>'' @
     ''    </section>\<newline>'' @
     ''  );\<newline>'' @
     ''}\<newline>''\<close>

definition createNextComponents :: "string \<Rightarrow> world \<Rightarrow> js_error option \<times> world" where
  \<open>createNextComponents componentName w =
     (let basePath = path_join (cwd w) componentName;
          (found, w1) = existsSync basePath w
      in if found
         then (Some (Error (''Component/page "'' @ componentName @ ''" already exists'')), w1)
         else
           and_then (mkdirSync basePath w1) (\<lambda>w2.
           and_then (writeFileSync (path_join basePath ''page.tsx'') (pageContent componentName) w2) (\<lambda>w3.
             writeFileSync (path_join basePath ''layout.tsx'') (layoutContent componentName) w3)))\<close>

definition removeNextComponents :: "string \<Rightarrow> world \<Rightarrow> js_error option \<times> world" where
  \<open>removeNextComponents componentName w =
     (let basePath = path_join (cwd w) componentName;
          (found, w1) = existsSync basePath w
      in if \<not> found
         then (Some (Error (''Component/page "'' @ componentName @ ''" doesn't exist'')), w1)
         else rmSync basePath w1)\<close>

definition expoIndexContent :: "string \<Rightarrow> string" where
  \<open>expoIndexContent componentName =
     ''import React from 'react';\<newline>'' @
     ''import { View, Text, StyleSheet } from 'react-native';\<newline>'' @
     ''\<newline>'' @
     ''export default function '' @ componentName @ ''Screen() {\<newline>'' @
     ''  return (\<newline>'' @
     ''    <View style={styles.container}>\<newline>'' @
     ''      <Text style={styles.title}>'' @ componentName @ '' Screen</Text>\<newline>'' @
     ''    </View>\<newline>'' @
     ''  );\<newline>'' @
     ''}\<newline>'' @
     ''\<newline>'' @
     ''const styles = StyleSheet.create({\<newline>'' @
     ''  container: {\<newline>'' @
     ''    flex: 1,\<newline>'' @
     ''    alignItems: 'center',\<newline>'' @
     ''    justifyContent: 'center',\<newline>'' @
     ''  },\<newline>'' @
     ''  title: {\<newline>'' @
     ''    fontSize: 20,\<newline>'' @
     ''    fontWeight: 'bold',\<newline>'' @
     ''    marginBottom: 16,\<newline>'' @
     ''  },\<newline>'' @
     ''});\<newline>''\<close>

definition expoStylesContent :: string where
  \<open>expoStylesContent =
     ''import { StyleSheet } from 'react-native';\<newline>'' @
     ''\<newline>'' @
     ''export default StyleSheet.create({\<newline>'' @
     ''  container: {\<newline>'' @
     ''    flex: 1,\<newline>'' @
     ''    padding: 16,\<newline>'' @
     ''    backgroundColor: '#f0f0f0',\<newline>'' @
     ''  },\<newline>'' @
     ''});\<newline>''\<close>

definition createExpoComponents :: "string \<Rightarrow> world \<Rightarrow> js_error option \<times> world" where
  \<open>createExpoComponents componentName w =
     (let componentDir = path_join (cwd w) componentName;
          (found, w1) = existsSync componentDir w
      in if found
         then (Some (Error (''Component "'' @ componentName @ ''" already exists'')), w1)
         else
           and_then (mkdirSync componentDir w1) (\<lambda>w2.
           and_then (writeFileSync (path_join componentDir ''index.tsx'') (expoIndexContent componentName) w2) (\<lambda>w3.
             writeFileSync (path_join componentDir ''styles.js'') expoStylesContent w3)))\<close>

definition removeExpoComponents :: "string \<Rightarrow> world \<Rightarrow> js_error option \<times> world" where
  \<open>removeExpoComponents componentName w =
     (let componentDir = path_join (cwd w) componentName;
          (found, w1) = existsSync componentDir w
      in if \<not> found
         then (Some (Error (''Component "'' @ componentName @ ''" doesn't exist'')), w1)
         else rmSync componentDir w1)\<close>

definition reactNativeIndexContent :: "string \<Rightarrow> string" where
  \<open>reactNativeIndexContent componentName =
     ''import React from 'react';\<newline>'' @
     ''import { View, Text } from 'react-native';\<newline>'' @
     ''import styles from './styles';\<newline>'' @
     ''\<newline>'' @
     ''const '' @ componentName @ '' = () => {\<newline>'' @
     ''  return (\<newline>'' @
     ''    <View style={styles.container}>\<newline>'' @
     ''      <Text style={styles.text}>'' @ componentName @ '' Component</Text>\<newline>'' @
     ''    </View>\<newline>'' @
     ''  );\<newline>'' @
     ''};\<newline>'' @
     ''\<newline>'' @
     ''export default '' @ componentName @ '';\<newline>''\<close>

definition reactNativeStylesContent :: string where
  \<open>reactNativeStylesContent =
     ''import { StyleSheet } from 'react-native';\<newline>'' @
     ''\<newline>'' @
     ''export default StyleSheet.create({\<newline>'' @
     ''  container: {\<newline>'' @
     ''    padding: 16,\<newline>'' @
     ''    backgroundColor: '#f5f5f5',\<newline>'' @
     ''    borderRadius: 8,\<newline>'' @
     ''  },\<newline>'' @
     ''  text: {\<newline>'' @
     ''    fontSize: 16,\<newline>'' @
     ''    color: '#333',\<newline>'' @
     ''  },\<newline>'' @
     ''});\<newline>''\<close>

definition createReactNativeComponents :: "string \<Rightarrow> world \<Rightarrow> js_error option \<times> world" where
  \<open>createReactNativeComponents componentName w =
     (let componentDir = path_join (cwd w) componentName;
          (found, w1) = existsSync componentDir w
      in if found
         then (Some (Error (''Component "'' @ componentName @ ''" already exists'')), w1)
         else
           and_then (mkdirSync componentDir w1) (\<lambda>w2.
           and_then (writeFileSync (path_join componentDir ''index.jsx'') (reactNativeIndexContent componentName) w2) (\<lambda>w3.
             writeFileSync (path_join componentDir ''styles.js'') reactNativeStylesContent w3)))\<close>

definition removeReactNativeComponents :: "string \<Rightarrow> world \<Rightarrow> js_error option \<times> world" where
  \<open>removeReactNativeComponents componentName w =
     (let componentDir = path_join (cwd w) componentName;
          (found, w1) = existsSync componentDir w
      in if \<not> found
         then (Some (Error (''Component "'' @ componentName @ ''" doesn't exist'')), w1)
         else rmSync componentDir w1)\<close>

subsection \<open>Dispatch\<close>

text \<open>
  \<^verbatim>\<open>addComponent\<close> and \<^verbatim>\<open>removeComponent\<close> return \<open>Some code\<close> when they end the
  process with \<^verbatim>\<open>process.exit(code)\<close> and \<open>None\<close> when they return to their caller.
\<close>

definition addComponent :: "string \<Rightarrow> string \<Rightarrow> world \<Rightarrow> nat option \<times> world" where
  "addComponent platform componentName w =
     (case (if platform = ''next'' then createNextComponents componentName w
            else if platform = ''expo'' then createExpoComponents componentName w
            else if platform = ''react-native'' then createReactNativeComponents componentName w
            else (None, w)) of
        (None, w') \<Rightarrow> (None, console_log (SuccessfullyCreated componentName platform) w')
      | (Some error, w') \<Rightarrow> (Some 1, console_log (ErrorCreating error) w'))"

definition removeComponent :: "string \<Rightarrow> string \<Rightarrow> world \<Rightarrow> nat option \<times> world" where
  "removeComponent platform componentName w =
     (case (if platform = ''next'' then removeNextComponents componentName w
            else if platform = ''expo'' then removeExpoComponents componentName w
            else if platform = ''react-native'' then removeReactNativeComponents componentName w
            else (None, w)) of
        (None, w') \<Rightarrow> (None, console_log (SuccessfullyRemoved componentName platform) w')
      | (Some error, w') \<Rightarrow> (Some 1, console_log (ErrorRemoving error) w'))"

subsection \<open>Interactive mode\<close>

text \<open>
  What the person at the terminal does: how many times they press the down arrow before
  Enter in each of the two list prompts (the cursor wraps around), and the lines they
  type at the name prompt, in order.  The name prompt asks again until \<^verbatim>\<open>validate\<close>
  accepts a line; if no typed line is accepted the prompt never completes, which is
  the value \<open>None\<close>.
\<close>

record user =
  platform_keys :: nat
  action_keys :: nat
  typed :: "string list"

datatype verdict = Accepted | Rejected string

definition validate :: "string \<Rightarrow> verdict" where
  "validate input = (if trim input \<noteq> [] then Accepted else Rejected ''Name cannot be empty'')"

definition list_prompt :: "string list \<Rightarrow> nat \<Rightarrow> string" where
  "list_prompt choices keys = choices ! (keys mod length choices)"

fun input_prompt :: "string list \<Rightarrow> world \<Rightarrow> (string \<times> world) option" where
  "input_prompt [] w = None"
| "input_prompt (input # rest) w =
     (case validate input of
        Accepted \<Rightarrow> Some (input, w)
      | Rejected msg \<Rightarrow> input_prompt rest (console_log (PromptError msg) w))"

definition interactiveCLI :: "user \<Rightarrow> world \<Rightarrow> (nat option \<times> world) option" where
  "interactiveCLI u w =
     (let platform = list_prompt [''next'', ''expo'', ''react-native''] (platform_keys u);
          action = list_prompt [''add'', ''remove''] (action_keys u)
      in case input_prompt (typed u) w of
           None \<Rightarrow> None
         | Some (componentName, w1) \<Rightarrow>
             Some (if action = ''add'' then addComponent platform componentName w1
                   else if action = ''remove'' then removeComponent platform componentName w1
                   else (None, w1)))"

text \<open>
  \<^verbatim>\<open>welcome\<close> of the source, as \<open>welcome_banner\<close>: the banner and the tag line.  The
  pause of \<^verbatim>\<open>sleep(500)\<close> that follows it changes nothing in the state.
\<close>

definition welcome_banner :: "world \<Rightarrow> world" where
  "welcome_banner w = console_log Tagline (console_log Title w)"

definition displayHelp :: "world \<Rightarrow> world" where
  "displayHelp w = console_log Help w"

subsection \<open>The entry point\<close>

definition parseArguments :: "string list \<Rightarrow> user \<Rightarrow> world \<Rightarrow> (nat option \<times> world) option" where
  "parseArguments args u w =
     (if length args = 0 then interactiveCLI u (welcome_banner w)
      else if length args < 3
        then Some (Some 1, displayHelp (console_log NotEnoughArguments w))
      else
        let platform = args ! 0; action = args ! 1; componentName = args ! 2
        in if platform \<notin> set [''expo'', ''next'', ''react-native'']
             then Some (Some 1, displayHelp (console_log (InvalidPlatform platform) w))
           else if action \<notin> set [''add'', ''remove'']
             then Some (Some 1, displayHelp (console_log (InvalidAction action) w))
           else if action = ''add'' then Some (addComponent platform componentName w)
           else if action = ''remove'' then Some (removeComponent platform componentName w)
           else Some (None, w))"

text \<open>
  A run of the tool, the last statement of the file: its exit status and final state.
  The process ends with status 0 when \<^verbatim>\<open>parseArguments\<close> returns without calling
  \<^verbatim>\<open>process.exit\<close>.  Every error a handler throws is caught in \<^verbatim>\<open>addComponent\<close>
  or \<^verbatim>\<open>removeComponent\<close>, so the final \<^verbatim>\<open>catch\<close> has nothing to catch here.
\<close>

definition run :: "string list \<Rightarrow> user \<Rightarrow> world \<Rightarrow> (nat \<times> world) option" where
  "run args u w =
     (case parseArguments args u w of
        None \<Rightarrow> None
      | Some (None, w') \<Rightarrow> Some (0, w')
      | Some (Some code, w') \<Rightarrow> Some (code, w'))"

subsection \<open>Notions used to state and prove the properties\<close>

text \<open>
  A segment that normalisation keeps as it is; the directory tree \<open>d\<close> with the
  directory at path \<open>q\<close> replaced by \<open>e\<close>; and small states of the process to run the
  program on: a working directory \<^verbatim>\<open>/app\<close> that is empty, and one that holds a
  component directory \<^verbatim>\<open>login\<close> and a regular file \<^verbatim>\<open>notes\<close>; and a process
  whose working directory is the root.
\<close>

definition plain :: "string \<Rightarrow> bool" where
  "plain s = (s \<noteq> [] \<and> s \<noteq> ''.'' \<and> s \<noteq> ''..'')"

fun graft :: "dir \<Rightarrow> string list \<Rightarrow> dir \<Rightarrow> dir" where
  "graft d [] e = e"
| "graft d (s # q) e =
     (case d s of Some (Dir d0) \<Rightarrow> d(s \<mapsto> Dir (graft d0 q e)) | _ \<Rightarrow> d)"

definition demo_cwd :: path where
  "demo_cwd = \<lparr>segs = [''app''], trailing = False\<rparr>"

definition empty_project :: world where
  "empty_project =
     \<lparr>cwd = demo_cwd, tree = (\<lambda>_. None)(''app'' \<mapsto> Dir (\<lambda>_. None)), calls = [], console = []\<rparr>"

definition busy_project :: world where
  "busy_project =
     \<lparr>cwd = demo_cwd,
      tree = (\<lambda>_. None)(''app'' \<mapsto>
               Dir ((\<lambda>_. None)(''login'' \<mapsto> Dir (\<lambda>_. None), ''notes'' \<mapsto> File ''todo''))),
      calls = [], console = []\<rparr>"

definition root_project :: world where
  "root_project =
     \<lparr>cwd = \<lparr>segs = [], trailing = False\<rparr>,
      tree = (\<lambda>_. None)(''app'' \<mapsto> Dir (\<lambda>_. None)), calls = [], console = []\<rparr>"

definition demo_user :: user where
  "demo_user = \<lparr>platform_keys = 0, action_keys = 0, typed = []\<rparr>"

section \<open>Properties\<close>

subsection \<open>Normalised paths\<close>

lemma step_plain: "list_all plain acc \<Longrightarrow> list_all plain (normalize_step acc x)"
  by (auto simp: normalize_step_def plain_def list_all_iff dest: in_set_butlastD)

lemma foldl_step_plain: "list_all plain acc \<Longrightarrow> list_all plain (foldl normalize_step acc xs)"
  by (induction xs arbitrary: acc) (simp_all add: step_plain)

lemma foldl_step_id: "list_all plain ys \<Longrightarrow> foldl normalize_step acc ys = acc @ ys"
  by (induction ys arbitrary: acc) (simp_all add: normalize_step_def plain_def)

lemma normalizeString_plain: "list_all plain (normalizeString xs)"
  by (simp add: normalizeString_def foldl_step_plain)

lemma segs_join_plain: "list_all plain (segs (path_join p arg))"
  by (simp add: path_join_def Let_def normalizeString_plain)

lemma join_file:
  assumes "split_sep f = [f]" "plain f" "f \<noteq> []" "last f \<noteq> CHR ''/''"
  shows "path_join (path_join p arg) f = \<lparr>segs = segs (path_join p arg) @ [f], trailing = False\<rparr>"
proof -
  have "normalizeString (segs (path_join p arg) @ [f]) = segs (path_join p arg) @ [f]"
    using assms segs_join_plain [of p arg]
    by (simp add: normalizeString_def foldl_step_id plain_def normalize_step_def)
  then show ?thesis using assms
    by (simp add: path_join_def [of "path_join p arg" f] Let_def)
qed

lemma join_empty:
  assumes "list_all plain (segs p)" "\<not> trailing p"
  shows "path_join p [] = p"
  using assms by (simp add: path_join_def normalizeString_def foldl_step_id Let_def)

subsection \<open>The directory tree\<close>

text \<open>
  Each operation on a path \<open>q @ [s]\<close> whose parent \<open>q\<close> is a directory \<open>e\<close> acts on the
  entry \<open>s\<close> of \<open>e\<close> and leaves everything else alone.
\<close>

lemma resolve_append:
  "resolve d q = Inr (Dir e) \<Longrightarrow>
   resolve d (q @ [s]) = (case e s of None \<Rightarrow> Inl ENOENT | Some n \<Rightarrow> Inr n)"
  by (induction q arbitrary: d) (auto split: option.splits node.splits if_splits)

lemma resolve_parent:
  "resolve d (q @ [s]) = Inr n \<Longrightarrow> \<exists>e. resolve d q = Inr (Dir e) \<and> e s = Some n"
  by (induction q arbitrary: d) (auto split: option.splits node.splits if_splits)

lemma resolve_graft: "resolve d q = Inr (Dir e) \<Longrightarrow> resolve (graft d q e') q = Inr (Dir e')"
  by (induction q arbitrary: d) (auto split: option.splits node.splits if_splits)

lemma graft_graft: "resolve d q = Inr (Dir e) \<Longrightarrow> graft (graft d q e1) q e2 = graft d q e2"
  by (induction q arbitrary: d) (auto split: option.splits node.splits if_splits)

lemma graft_same: "resolve d q = Inr (Dir e) \<Longrightarrow> graft d q e = d"
  by (induction q arbitrary: d) (auto split: option.splits node.splits if_splits)

lemma graft_append:
  "resolve d q = Inr (Dir e) \<Longrightarrow> e s = Some (Dir x) \<Longrightarrow>
   graft d (q @ [s]) y = graft d q (e(s \<mapsto> Dir y))"
  by (induction q arbitrary: d) (auto split: option.splits node.splits if_splits)

lemma mkdirp_last:
  "resolve d q = Inr (Dir e) \<Longrightarrow>
   mkdirp d (q @ [s]) =
     (case e s of
        None \<Rightarrow> Inr (graft d q (e(s \<mapsto> Dir (\<lambda>_. None))))
      | Some (File c) \<Rightarrow> Inl EEXIST
      | Some (Dir e') \<Rightarrow> Inr d)"
  by (induction q arbitrary: d) (auto split: option.splits node.splits if_splits)

lemma mkdirp_empty: "mkdirp (\<lambda>_. None) p = Inr d1 \<Longrightarrow> resolve d1 p = Inr (Dir (\<lambda>_. None))"
  by (induction p arbitrary: d1) (auto split: sum.splits)

lemma mkdirp_fresh:
  "mkdirp d p = Inr d1 \<Longrightarrow> resolve d p = Inl err \<Longrightarrow> resolve d1 p = Inr (Dir (\<lambda>_. None))"
  by (induction p arbitrary: d d1)
     (auto split: option.splits node.splits if_splits sum.splits dest: mkdirp_empty)

lemma mkdirp_missing: "resolve d p = Inl ENOENT \<Longrightarrow> \<exists>d1. mkdirp d p = Inr d1"
proof (induction p arbitrary: d)
  case Nil
  then show ?case by simp
next
  case (Cons s p)
  have empty: "\<exists>d1. mkdirp (\<lambda>_. None) p = Inr d1" for p :: "string list"
    by (induction p) auto
  show ?case
  proof (cases "d s")
    case None
    with empty [of p] show ?thesis by auto
  next
    case (Some n)
    show ?thesis
    proof (cases n)
      case (File c)
      with Some Cons.prems show ?thesis by (auto split: if_splits)
    next
      case (Dir d0)
      with Some Cons.prems have "resolve d0 p = Inl ENOENT" by simp
      from Cons.IH [OF this] obtain d1 where "mkdirp d0 p = Inr d1" ..
      with Some Dir show ?thesis by simp
    qed
  qed
qed

lemma mkdirp_file: "resolve d p = Inr (File c) \<Longrightarrow> mkdirp d p = Inl EEXIST"
  by (induction p arbitrary: d) (auto split: option.splits node.splits if_splits)

lemma write_file_Cons:
  "p \<noteq> [] \<Longrightarrow>
   write_file d (s # p) c =
     (case d s of
        None \<Rightarrow> Inl ENOENT
      | Some (File c0) \<Rightarrow> Inl ENOTDIR
      | Some (Dir d0) \<Rightarrow>
          (case write_file d0 p c of Inl e \<Rightarrow> Inl e | Inr d' \<Rightarrow> Inr (d(s \<mapsto> Dir d'))))"
  by (cases p) auto

lemma write_file_last:
  "resolve d q = Inr (Dir e) \<Longrightarrow>
   write_file d (q @ [f]) c =
     (case e f of Some (Dir e') \<Rightarrow> Inl EISDIR | _ \<Rightarrow> Inr (graft d q (e(f \<mapsto> File c))))"
proof (induction q arbitrary: d)
  case Nil
  then show ?case by (auto simp: fun_upd_def split: option.splits node.splits)
next
  case (Cons a q)
  then show ?case
    by (auto simp: write_file_Cons fun_upd_def split: option.splits node.splits if_splits)
qed

lemma rm_rf_Cons:
  "p \<noteq> [] \<Longrightarrow>
   rm_rf d (s # p) = (case d s of Some (Dir d0) \<Rightarrow> d(s \<mapsto> Dir (rm_rf d0 p)) | _ \<Rightarrow> d)"
  by (cases p) auto

lemma rm_rf_last:
  "resolve d q = Inr (Dir e) \<Longrightarrow> rm_rf d (q @ [s]) = graft d q (e(s := None))"
proof (induction q arbitrary: d)
  case Nil
  then show ?case by simp
next
  case (Cons a q)
  then show ?case
    by (simp add: rm_rf_Cons split: option.splits node.splits if_splits)
qed

lemma rm_rf_gone:
  assumes "resolve d p = Inr n" "p \<noteq> []"
  shows "resolve (rm_rf d p) p = Inl ENOENT"
proof -
  from assms(2) obtain q s where p: "p = q @ [s]"
    by (metis append_butlast_last_id)
  from assms(1) obtain e where e: "resolve d q = Inr (Dir e)" "e s = Some n"
    unfolding p by (blast dest: resolve_parent)
  have "resolve (graft d q (e(s := None))) q = Inr (Dir (e(s := None)))"
    by (rule resolve_graft [OF e(1)])
  then show ?thesis
    unfolding p by (simp add: rm_rf_last [OF e(1)] resolve_append)
qed

lemma stat_Dir: "stat d p = Inr (Dir e) \<longleftrightarrow> resolve d (segs p) = Inr (Dir e)"
  by (auto simp: stat_def split: sum.splits node.splits if_splits)

lemma fresh_after_mkdirp:
  assumes "stat d t = Inl err" "mkdirp d (segs t) = Inr d1"
  shows "resolve d1 (segs t) = Inr (Dir (\<lambda>_. None))"
proof (cases "resolve d (segs t)")
  case (Inl e)
  with assms(2) show ?thesis by (blast intro: mkdirp_fresh)
next
  case (Inr n)
  with assms(1) obtain c where "n = File c"
    by (cases n) (auto simp: stat_def split: if_splits)
  with Inr assms(2) show ?thesis by (simp add: mkdirp_file)
qed

lemma mkdirp_at_missing:
  assumes "stat d t = Inl ENOENT"
  shows "\<exists>d1. mkdirp d (segs t) = Inr d1 \<and> resolve d1 (segs t) = Inr (Dir (\<lambda>_. None))"
proof -
  from assms have "resolve d (segs t) = Inl ENOENT"
    by (auto simp: stat_def split: sum.splits node.splits if_splits)
  from mkdirp_missing [OF this] obtain d1 where "mkdirp d (segs t) = Inr d1" ..
  with fresh_after_mkdirp [OF assms this] show ?thesis by blast
qed

subsection \<open>What the handlers do\<close>

text \<open>
  The three create handlers and the three remove handlers, case by case: the target
  exists or not, the directory can be made or not.
\<close>

lemma called_fields:
  "tree (called c w) = tree w" "cwd (called c w) = cwd w"
  "calls (called c w) = calls w @ [c]" "console (called c w) = console w"
  by (simp_all add: called_def)

lemma not_exists_stat: "\<not> fst (existsSync t w) \<Longrightarrow> \<exists>err. stat (tree w) t = Inl err"
  by (auto simp: existsSync_def split: sum.splits)

lemma missing_not_exists: "stat (tree w) t = Inl ENOENT \<Longrightarrow> \<not> fst (existsSync t w)"
  by (simp add: existsSync_def)

lemma scaffold:
  assumes mk: "mkdirp (tree w) (segs base) = Inr d1"
    and fresh: "resolve d1 (segs base) = Inr (Dir (\<lambda>_. None))"
    and base: "base = path_join p0 arg"
    and f1: "split_sep f1 = [f1]" "plain f1" "last f1 \<noteq> CHR ''/''"
    and f2: "split_sep f2 = [f2]" "plain f2" "last f2 \<noteq> CHR ''/''"
  shows "and_then (mkdirSync base w) (\<lambda>w2.
         and_then (writeFileSync (path_join base f1) c1 w2) (\<lambda>w3.
           writeFileSync (path_join base f2) c2 w3)) =
         (None, w\<lparr>tree := graft d1 (segs base) ((\<lambda>_. None)(f1 \<mapsto> File c1, f2 \<mapsto> File c2)),
                   calls := calls w @
                     [MkdirSync base,
                      WriteFileSync \<lparr>segs = segs base @ [f1], trailing = False\<rparr> c1,
                      WriteFileSync \<lparr>segs = segs base @ [f2], trailing = False\<rparr> c2]\<rparr>)"
proof -
  have j1: "path_join base f1 = \<lparr>segs = segs base @ [f1], trailing = False\<rparr>"
    unfolding base using f1 by (intro join_file) (auto simp: plain_def)
  have j2: "path_join base f2 = \<lparr>segs = segs base @ [f2], trailing = False\<rparr>"
    unfolding base using f2 by (intro join_file) (auto simp: plain_def)
  let ?e1 = "(\<lambda>_. None)(f1 \<mapsto> File c1) :: dir"
  let ?d2 = "graft d1 (segs base) ?e1"
  have w1: "write_file d1 (segs base @ [f1]) c1 = Inr ?d2"
    using write_file_last [OF fresh, of f1 c1] by simp
  have r2: "resolve ?d2 (segs base) = Inr (Dir ?e1)"
    by (rule resolve_graft [OF fresh])
  have w2: "write_file ?d2 (segs base @ [f2]) c2 = Inr (graft ?d2 (segs base) (?e1(f2 \<mapsto> File c2)))"
    using write_file_last [OF r2, of f2 c2] by (simp split: option.splits node.splits)
  have g: "graft ?d2 (segs base) (?e1(f2 \<mapsto> File c2)) = graft d1 (segs base) (?e1(f2 \<mapsto> File c2))"
    by (rule graft_graft [OF fresh])
  show ?thesis
    by (simp add: and_then_def mkdirSync_def writeFileSync_def mk j1 j2 w1 w2 g called_def)
qed

lemma scaffold_blocked:
  assumes "mkdirp (tree w) (segs base) = Inl e"
  shows "and_then (mkdirSync base w) f =
           (Some (SystemError (if e = EEXIST \<and> trailing base then ENOTDIR else e)),
            called (MkdirSync base) w)"
  using assms by (simp add: and_then_def mkdirSync_def)

lemma create_existing:
  assumes "fst (existsSync (path_join (cwd w) name) w)"
  shows \<open>createNextComponents name w =
           (Some (Error (''Component/page "'' @ name @ ''" already exists'')),
            called (ExistsSync (path_join (cwd w) name)) w)\<close>
    and \<open>createExpoComponents name w =
           (Some (Error (''Component "'' @ name @ ''" already exists'')),
            called (ExistsSync (path_join (cwd w) name)) w)\<close>
    and \<open>createReactNativeComponents name w =
           (Some (Error (''Component "'' @ name @ ''" already exists'')),
            called (ExistsSync (path_join (cwd w) name)) w)\<close>
  using assms
  by (simp_all add: createNextComponents_def createExpoComponents_def
        createReactNativeComponents_def existsSync_def Let_def)

lemma create_absent:
  assumes "\<not> fst (existsSync (path_join (cwd w) name) w)"
  shows "createNextComponents name w =
     (let target = path_join (cwd w) name in
      case mkdirp (tree w) (segs target) of
        Inl e \<Rightarrow>
          (Some (SystemError (if e = EEXIST \<and> trailing target then ENOTDIR else e)),
           w\<lparr>calls := calls w @ [ExistsSync target, MkdirSync target]\<rparr>)
      | Inr d1 \<Rightarrow>
          (None, w\<lparr>tree := graft d1 (segs target)
                      ((\<lambda>_. None)(''page.tsx'' \<mapsto> File (pageContent name),
                                   ''layout.tsx'' \<mapsto> File (layoutContent name))),
                    calls := calls w @
                      [ExistsSync target, MkdirSync target,
                       WriteFileSync \<lparr>segs = segs target @ [''page.tsx''], trailing = False\<rparr> (pageContent name),
                       WriteFileSync \<lparr>segs = segs target @ [''layout.tsx''], trailing = False\<rparr> (layoutContent name)]\<rparr>))"
   (is ?next)
   and "createExpoComponents name w =
     (let target = path_join (cwd w) name in
      case mkdirp (tree w) (segs target) of
        Inl e \<Rightarrow>
          (Some (SystemError (if e = EEXIST \<and> trailing target then ENOTDIR else e)),
           w\<lparr>calls := calls w @ [ExistsSync target, MkdirSync target]\<rparr>)
      | Inr d1 \<Rightarrow>
          (None, w\<lparr>tree := graft d1 (segs target)
                      ((\<lambda>_. None)(''index.tsx'' \<mapsto> File (expoIndexContent name),
                                   ''styles.js'' \<mapsto> File expoStylesContent)),
                    calls := calls w @
                      [ExistsSync target, MkdirSync target,
                       WriteFileSync \<lparr>segs = segs target @ [''index.tsx''], trailing = False\<rparr> (expoIndexContent name),
                       WriteFileSync \<lparr>segs = segs target @ [''styles.js''], trailing = False\<rparr> expoStylesContent]\<rparr>))"
   (is ?expo)
   and "createReactNativeComponents name w =
     (let target = path_join (cwd w) name in
      case mkdirp (tree w) (segs target) of
        Inl e \<Rightarrow>
          (Some (SystemError (if e = EEXIST \<and> trailing target then ENOTDIR else e)),
           w\<lparr>calls := calls w @ [ExistsSync target, MkdirSync target]\<rparr>)
      | Inr d1 \<Rightarrow>
          (None, w\<lparr>tree := graft d1 (segs target)
                      ((\<lambda>_. None)(''index.jsx'' \<mapsto> File (reactNativeIndexContent name),
                                   ''styles.js'' \<mapsto> File reactNativeStylesContent)),
                    calls := calls w @
                      [ExistsSync target, MkdirSync target,
                       WriteFileSync \<lparr>segs = segs target @ [''index.jsx''], trailing = False\<rparr> (reactNativeIndexContent name),
                       WriteFileSync \<lparr>segs = segs target @ [''styles.js''], trailing = False\<rparr> reactNativeStylesContent]\<rparr>))"
   (is ?rn)
proof -
  let ?t = "path_join (cwd w) name"
  let ?w1 = "called (ExistsSync ?t) w"
  from not_exists_stat [OF assms] obtain err where st: "stat (tree w) ?t = Inl err" ..
  have ex: "existsSync ?t w = (False, ?w1)"
    using assms by (simp add: existsSync_def)
  show ?next
  proof (cases "mkdirp (tree w) (segs ?t)")
    case (Inl e)
    then show ?thesis
      by (simp add: createNextComponents_def ex Let_def scaffold_blocked called_fields called_def)
  next
    case (Inr d1)
    have "and_then (mkdirSync ?t ?w1) (\<lambda>w2.
          and_then (writeFileSync (path_join ?t ''page.tsx'') (pageContent name) w2) (\<lambda>w3.
            writeFileSync (path_join ?t ''layout.tsx'') (layoutContent name) w3)) =
          (None, ?w1\<lparr>tree := graft d1 (segs ?t)
                      ((\<lambda>_. None)(''page.tsx'' \<mapsto> File (pageContent name),
                                   ''layout.tsx'' \<mapsto> File (layoutContent name))),
                    calls := calls ?w1 @
                      [MkdirSync ?t,
                       WriteFileSync \<lparr>segs = segs ?t @ [''page.tsx''], trailing = False\<rparr> (pageContent name),
                       WriteFileSync \<lparr>segs = segs ?t @ [''layout.tsx''], trailing = False\<rparr> (layoutContent name)]\<rparr>)"
      by (rule scaffold [where ?p0.0 = "cwd w" and arg = name and ?d1.0 = d1])
         (simp_all add: called_fields Inr fresh_after_mkdirp [OF st] plain_def)
    then show ?thesis
      by (simp add: createNextComponents_def ex Let_def Inr) (simp add: called_def)
  qed
  show ?expo
  proof (cases "mkdirp (tree w) (segs ?t)")
    case (Inl e)
    then show ?thesis
      by (simp add: createExpoComponents_def ex Let_def scaffold_blocked called_fields called_def)
  next
    case (Inr d1)
    have "and_then (mkdirSync ?t ?w1) (\<lambda>w2.
          and_then (writeFileSync (path_join ?t ''index.tsx'') (expoIndexContent name) w2) (\<lambda>w3.
            writeFileSync (path_join ?t ''styles.js'') expoStylesContent w3)) =
          (None, ?w1\<lparr>tree := graft d1 (segs ?t)
                      ((\<lambda>_. None)(''index.tsx'' \<mapsto> File (expoIndexContent name),
                                   ''styles.js'' \<mapsto> File expoStylesContent)),
                    calls := calls ?w1 @
                      [MkdirSync ?t,
                       WriteFileSync \<lparr>segs = segs ?t @ [''index.tsx''], trailing = False\<rparr> (expoIndexContent name),
                       WriteFileSync \<lparr>segs = segs ?t @ [''styles.js''], trailing = False\<rparr> expoStylesContent]\<rparr>)"
      by (rule scaffold [where ?p0.0 = "cwd w" and arg = name and ?d1.0 = d1])
         (simp_all add: called_fields Inr fresh_after_mkdirp [OF st] plain_def)
    then show ?thesis
      by (simp add: createExpoComponents_def ex Let_def Inr) (simp add: called_def)
  qed
  show ?rn
  proof (cases "mkdirp (tree w) (segs ?t)")
    case (Inl e)
    then show ?thesis
      by (simp add: createReactNativeComponents_def ex Let_def scaffold_blocked called_fields called_def)
  next
    case (Inr d1)
    have "and_then (mkdirSync ?t ?w1) (\<lambda>w2.
          and_then (writeFileSync (path_join ?t ''index.jsx'') (reactNativeIndexContent name) w2) (\<lambda>w3.
            writeFileSync (path_join ?t ''styles.js'') reactNativeStylesContent w3)) =
          (None, ?w1\<lparr>tree := graft d1 (segs ?t)
                      ((\<lambda>_. None)(''index.jsx'' \<mapsto> File (reactNativeIndexContent name),
                                   ''styles.js'' \<mapsto> File reactNativeStylesContent)),
                    calls := calls ?w1 @
                      [MkdirSync ?t,
                       WriteFileSync \<lparr>segs = segs ?t @ [''index.jsx''], trailing = False\<rparr> (reactNativeIndexContent name),
                       WriteFileSync \<lparr>segs = segs ?t @ [''styles.js''], trailing = False\<rparr> reactNativeStylesContent]\<rparr>)"
      by (rule scaffold [where ?p0.0 = "cwd w" and arg = name and ?d1.0 = d1])
         (simp_all add: called_fields Inr fresh_after_mkdirp [OF st] plain_def)
    then show ?thesis
      by (simp add: createReactNativeComponents_def ex Let_def Inr) (simp add: called_def)
  qed
qed

lemma add_absent_shape:
  assumes "platform \<in> {''next'', ''expo'', ''react-native''}"
    and "\<not> fst (existsSync (path_join (cwd w) name) w)"
  shows "\<exists>X. cwd (snd (addComponent platform name w)) = cwd w \<and>
     (case mkdirp (tree w) (segs (path_join (cwd w) name)) of
        Inl e \<Rightarrow>
          fst (addComponent platform name w) = Some 1
          \<and> tree (snd (addComponent platform name w)) = tree w
      | Inr d1 \<Rightarrow>
          fst (addComponent platform name w) = None
          \<and> tree (snd (addComponent platform name w)) =
              graft d1 (segs (path_join (cwd w) name)) X)"
proof -
  note c = create_absent [OF assms(2)]
  from assms(1) consider "platform = ''next''" | "platform = ''expo''" | "platform = ''react-native''"
    by auto
  then show ?thesis
  proof cases
    case 1
    show ?thesis
      by (rule exI [of _ "(\<lambda>_. None)(''page.tsx'' \<mapsto> File (pageContent name),
                                   ''layout.tsx'' \<mapsto> File (layoutContent name))"])
         (simp add: 1 addComponent_def c(1) Let_def console_log_def split: sum.splits)
  next
    case 2
    show ?thesis
      by (rule exI [of _ "(\<lambda>_. None)(''index.tsx'' \<mapsto> File (expoIndexContent name),
                                   ''styles.js'' \<mapsto> File expoStylesContent)"])
         (simp add: 2 addComponent_def c(2) Let_def console_log_def split: sum.splits)
  next
    case 3
    show ?thesis
      by (rule exI [of _ "(\<lambda>_. None)(''index.jsx'' \<mapsto> File (reactNativeIndexContent name),
                                   ''styles.js'' \<mapsto> File reactNativeStylesContent)"])
         (simp add: 3 addComponent_def c(3) Let_def console_log_def split: sum.splits)
  qed
qed

lemma remove_missing:
  assumes "\<not> fst (existsSync (path_join (cwd w) name) w)"
  shows \<open>removeNextComponents name w =
           (Some (Error (''Component/page "'' @ name @ ''" doesn't exist'')),
            called (ExistsSync (path_join (cwd w) name)) w)\<close>
    and \<open>removeExpoComponents name w =
           (Some (Error (''Component "'' @ name @ ''" doesn't exist'')),
            called (ExistsSync (path_join (cwd w) name)) w)\<close>
    and \<open>removeReactNativeComponents name w =
           (Some (Error (''Component "'' @ name @ ''" doesn't exist'')),
            called (ExistsSync (path_join (cwd w) name)) w)\<close>
  using assms
  by (simp_all add: removeNextComponents_def removeExpoComponents_def
        removeReactNativeComponents_def existsSync_def Let_def)

lemma remove_existing:
  assumes "fst (existsSync (path_join (cwd w) name) w)"
  shows "removeNextComponents name w =
           rmSync (path_join (cwd w) name) (called (ExistsSync (path_join (cwd w) name)) w)"
    and "removeExpoComponents name w =
           rmSync (path_join (cwd w) name) (called (ExistsSync (path_join (cwd w) name)) w)"
    and "removeReactNativeComponents name w =
           rmSync (path_join (cwd w) name) (called (ExistsSync (path_join (cwd w) name)) w)"
  using assms
  by (simp_all add: removeNextComponents_def removeExpoComponents_def
        removeReactNativeComponents_def existsSync_def Let_def)

lemma remove_outcome:
  assumes "platform \<in> {''next'', ''expo'', ''react-native''}"
  shows "fst (existsSync (path_join (cwd w) name) w) \<Longrightarrow>
         removeComponent platform name w =
           (case rmSync (path_join (cwd w) name) (called (ExistsSync (path_join (cwd w) name)) w) of
              (None, w') \<Rightarrow> (None, console_log (SuccessfullyRemoved name platform) w')
            | (Some error, w') \<Rightarrow> (Some 1, console_log (ErrorRemoving error) w'))"
    and "\<not> fst (existsSync (path_join (cwd w) name) w) \<Longrightarrow>
         tree (snd (removeComponent platform name w)) = tree w
         \<and> fst (removeComponent platform name w) = Some 1"
  using assms
  by (auto simp: removeComponent_def remove_existing remove_missing called_def console_log_def)

lemma run_add:
  "platform \<in> {''next'', ''expo'', ''react-native''} \<Longrightarrow>
   run (platform # ''add'' # name # rest) u w =
     (case addComponent platform name w of
        (None, w') \<Rightarrow> Some (0, w') | (Some code, w') \<Rightarrow> Some (code, w'))"
  by (auto simp: run_def parseArguments_def split: prod.splits option.splits)

lemma run_remove:
  "platform \<in> {''next'', ''expo'', ''react-native''} \<Longrightarrow>
   run (platform # ''remove'' # name # rest) u w =
     (case removeComponent platform name w of
        (None, w') \<Rightarrow> Some (0, w') | (Some code, w') \<Rightarrow> Some (code, w'))"
  by (auto simp: run_def parseArguments_def split: prod.splits option.splits)

lemma dropWhile_all: "(\<forall>c\<in>set (dropWhile P s). P c) \<longleftrightarrow> (\<forall>c\<in>set s. P c)"
  by (induction s) auto

lemma trim_empty_iff: "trim s = [] \<longleftrightarrow> (\<forall>c\<in>set s. isWhiteSpace c)"
  by (simp add: trim_def dropWhile_all)

lemma validate_iff:
  "validate input =
     (if \<exists>c\<in>set input. \<not> isWhiteSpace c then Accepted else Rejected ''Name cannot be empty'')"
  by (auto simp: validate_def trim_empty_iff)

lemma input_prompt_accepts:
  assumes "\<forall>x\<in>set rejected. \<forall>c\<in>set x. isWhiteSpace c" and "\<exists>c\<in>set name. \<not> isWhiteSpace c"
  shows "input_prompt (rejected @ name # rest) w =
           Some (name, w\<lparr>console := console w @
                   replicate (length rejected) (PromptError ''Name cannot be empty'')\<rparr>)"
  using assms
proof (induction rejected arbitrary: w)
  case Nil
  then show ?case by (simp add: validate_iff)
next
  case (Cons r rs)
  then have "validate r = Rejected ''Name cannot be empty''"
    by (simp add: validate_iff)
  with Cons show ?case
    by (simp add: console_log_def)
qed

lemma list_prompt_member: "choices \<noteq> [] \<Longrightarrow> list_prompt choices k \<in> set choices"
  by (simp add: list_prompt_def)

subsection \<open>The example states\<close>

lemmas run_defs =
  addComponent_def removeComponent_def
  createNextComponents_def createExpoComponents_def createReactNativeComponents_def
  removeNextComponents_def removeExpoComponents_def removeReactNativeComponents_def
  existsSync_def mkdirSync_def writeFileSync_def rmSync_def stat_def and_then_def
  called_def console_log_def path_join_def normalizeString_def normalize_step_def Let_def

lemma empty_project_fields:
  "cwd empty_project = demo_cwd" "calls empty_project = []" "console empty_project = []"
  "tree empty_project = (\<lambda>_. None)(''app'' \<mapsto> Dir (\<lambda>_. None))"
  by (simp_all add: empty_project_def)

lemma busy_project_fields:
  "cwd busy_project = demo_cwd" "calls busy_project = []" "console busy_project = []"
  "tree busy_project =
     (\<lambda>_. None)(''app'' \<mapsto>
        Dir ((\<lambda>_. None)(''login'' \<mapsto> Dir (\<lambda>_. None), ''notes'' \<mapsto> File ''todo'')))"
  by (simp_all add: busy_project_def)

lemma demo_join:
  "path_join demo_cwd [] = demo_cwd"
  "path_join demo_cwd ''login'' = \<lparr>segs = [''app'', ''login''], trailing = False\<rparr>"
  "path_join demo_cwd ''ghost'' = \<lparr>segs = [''app'', ''ghost''], trailing = False\<rparr>"
  "path_join demo_cwd ''profile'' = \<lparr>segs = [''app'', ''profile''], trailing = False\<rparr>"
  "path_join demo_cwd ''dashboard'' = \<lparr>segs = [''app'', ''dashboard''], trailing = False\<rparr>"
  by (simp_all add: demo_cwd_def path_join_def normalizeString_def normalize_step_def Let_def)

lemma plain_app: "list_all plain (segs demo_cwd)" "\<not> trailing demo_cwd"
  by (simp_all add: demo_cwd_def plain_def)




section \<open>The claims of the specification\<close>

text \<open>
  Claim C1.  For each of the three platforms, when the target \<^verbatim>\<open><cwd>/<name>\<close> already
  exists, \<^verbatim>\<open>add\<close> fails with the already-exists error naming the component, the
  process exits with status 1, and the file system is untouched: the tree is the same
  and the only call into \<^verbatim>\<open>fs\<close> is the existence check.
\<close>

theorem add_existing_fails:
  assumes "platform \<in> {''next'', ''expo'', ''react-native''}"
    and "fst (existsSync (path_join (cwd w) name) w)"
  shows \<open>let target = path_join (cwd w) name;
             msg = (if platform = ''next'' then ''Component/page "'' else ''Component "'')
                     @ name @ ''" already exists'';
             w' = console_log (ErrorCreating (Error msg)) (called (ExistsSync target) w)
         in addComponent platform name w = (Some 1, w')
          \<and> run (platform # ''add'' # name # rest) u w = Some (1, w')
          \<and> tree w' = tree w
          \<and> calls w' = calls w @ [ExistsSync target]\<close>
proof -
  have "addComponent platform name w =
        (Some 1, console_log (ErrorCreating (Error
           ((if platform = ''next'' then ''Component/page \"'' else ''Component \"'')
              @ name @ ''\" already exists'')))
           (called (ExistsSync (path_join (cwd w) name)) w))"
    using assms(1) create_existing [OF assms(2)]
    by (auto simp: addComponent_def)
  then show ?thesis
    by (simp add: Let_def run_add [OF assms(1)] console_log_def called_def)
qed

theorem add_existing_fails_witness:
  \<open>''expo'' \<in> {''next'', ''expo'', ''react-native''}
   \<and> fst (existsSync (path_join (cwd busy_project) ''login'') busy_project)
   \<and> run [''expo'', ''add'', ''login''] demo_user busy_project =
       Some (1, busy_project
                  \<lparr>calls := [ExistsSync \<lparr>segs = [''app'', ''login''], trailing = False\<rparr>],
                   console := [ErrorCreating (Error ''Component "login" already exists'')]\<rparr>)\<close>
proof -
  have p: "''expo'' \<in> {''next'', ''expo'', ''react-native''}" by simp
  have e: "fst (existsSync (path_join (cwd busy_project) ''login'') busy_project)"
    by (simp add: existsSync_def stat_def busy_project_fields demo_join)
  show ?thesis
    using p e add_existing_fails [OF p e, of "[]" demo_user]
    by (simp add: Let_def console_log_def called_def busy_project_fields demo_join)
qed

text \<open>
  Claim C2, amended.  For each of the three platforms, when nothing exists at
  \<^verbatim>\<open><cwd>/<name>\<close> (the check \<^verbatim>\<open>fs.existsSync\<close> is false: it finds neither a directory
  nor a regular file there), \<^verbatim>\<open>remove\<close> fails with the doesn't-exist error naming the
  component, the process exits with status 1, and no deletion is attempted: the tree is
  the same and the only call into \<^verbatim>\<open>fs\<close> is the existence check.
\<close>

theorem remove_missing_fails:
  assumes "platform \<in> {''next'', ''expo'', ''react-native''}"
    and "\<not> fst (existsSync (path_join (cwd w) name) w)"
  shows \<open>let target = path_join (cwd w) name;
             msg = (if platform = ''next'' then ''Component/page "'' else ''Component "'')
                     @ name @ ''" doesn't exist'';
             w' = console_log (ErrorRemoving (Error msg)) (called (ExistsSync target) w)
         in removeComponent platform name w = (Some 1, w')
          \<and> run (platform # ''remove'' # name # rest) u w = Some (1, w')
          \<and> tree w' = tree w
          \<and> calls w' = calls w @ [ExistsSync target]\<close>
proof -
  have \<open>removeComponent platform name w =
        (Some 1, console_log (ErrorRemoving (Error
           ((if platform = ''next'' then ''Component/page "'' else ''Component "'')
              @ name @ ''" doesn't exist'')))
           (called (ExistsSync (path_join (cwd w) name)) w))\<close>
    using assms(1) remove_missing [OF assms(2)]
    by (auto simp: removeComponent_def)
  then show ?thesis
    by (simp add: Let_def run_remove [OF assms(1)] console_log_def called_def)
qed

theorem remove_missing_fails_witness:
  \<open>''next'' \<in> {''next'', ''expo'', ''react-native''}
   \<and> \<not> fst (existsSync (path_join (cwd empty_project) ''login'') empty_project)
   \<and> run [''next'', ''remove'', ''login''] demo_user empty_project =
       Some (1, empty_project
                  \<lparr>calls := [ExistsSync \<lparr>segs = [''app'', ''login''], trailing = False\<rparr>],
                   console := [ErrorRemoving (Error ''Component/page "login" doesn't exist'')]\<rparr>)\<close>
proof -
  have p: "''next'' \<in> {''next'', ''expo'', ''react-native''}" by simp
  have e: "\<not> fst (existsSync (path_join (cwd empty_project) ''login'') empty_project)"
    by (simp add: existsSync_def stat_def empty_project_fields demo_join)
  show ?thesis
    using p e remove_missing_fails [OF p e, of "[]" demo_user]
    by (simp add: Let_def console_log_def called_def empty_project_fields demo_join)
qed

text \<open>
  The handlers ask whether anything exists at the target, not whether a directory does.
  Where the target names a regular file no directory exists there, and yet the check
  passes and \<^verbatim>\<open>rmSync\<close> unlinks the file: with the regular file \<^verbatim>\<open>notes\<close> in the
  working directory, removing \<^verbatim>\<open>notes\<close> for \<^verbatim>\<open>expo\<close> succeeds with status 0 and
  the file is gone.
\<close>

theorem remove_unlinks_regular_file:
  "resolve (tree busy_project) [''app'', ''notes''] = Inr (File ''todo'')
   \<and> fst (existsSync (path_join (cwd busy_project) ''notes'') busy_project)
   \<and> run [''expo'', ''remove'', ''notes''] demo_user busy_project =
       Some (0, snd (removeComponent ''expo'' ''notes'' busy_project))
   \<and> calls (snd (removeComponent ''expo'' ''notes'' busy_project)) =
       [ExistsSync \<lparr>segs = [''app'', ''notes''], trailing = False\<rparr>,
        RmSync \<lparr>segs = [''app'', ''notes''], trailing = False\<rparr>]
   \<and> console (snd (removeComponent ''expo'' ''notes'' busy_project)) =
       [SuccessfullyRemoved ''notes'' ''expo'']
   \<and> resolve (tree (snd (removeComponent ''expo'' ''notes'' busy_project))) [''app'', ''notes''] =
       Inl ENOENT"
  by (simp add: run_def parseArguments_def run_defs busy_project_def demo_cwd_def)

text \<open>
  Claim C3, amended.  For each of the three platforms and every name whose target does
  not exist while the parent directory of the target does, \<^verbatim>\<open>add\<close> followed by
  \<^verbatim>\<open>remove\<close> leaves the directory tree exactly as it was, with the target absent
  again; when the target is simply missing, both steps succeed.
\<close>

theorem add_then_remove_restores:
  assumes "platform \<in> {''next'', ''expo'', ''react-native''}"
    and "\<not> fst (existsSync (path_join (cwd w) name) w)"
    and "resolve (tree w) (butlast (segs (path_join (cwd w) name))) = Inr (Dir e)"
  shows "tree (snd (removeComponent platform name (snd (addComponent platform name w)))) = tree w
    \<and> \<not> fst (existsSync (path_join (cwd w) name)
                (snd (removeComponent platform name (snd (addComponent platform name w)))))
    \<and> (stat (tree w) (path_join (cwd w) name) = Inl ENOENT \<longrightarrow>
         fst (addComponent platform name w) = None
         \<and> fst (removeComponent platform name (snd (addComponent platform name w))) = None)"
proof -
  let ?t = "path_join (cwd w) name"
  let ?d = "tree w"
  from not_exists_stat [OF assms(2)] obtain err where st: "stat ?d ?t = Inl err" ..
  have ne: "segs ?t \<noteq> []"
    using st by (auto simp: stat_def)
  define q s where "q = butlast (segs ?t)" and "s = last (segs ?t)"
  have p: "segs ?t = q @ [s]"
    using ne by (simp add: q_def s_def)
  have rq: "resolve ?d q = Inr (Dir e)"
    using assms(3) by (simp add: q_def)
  from add_absent_shape [OF assms(1,2)] obtain X where
    cw: "cwd (snd (addComponent platform name w)) = cwd w" and
    add: "case mkdirp ?d (segs ?t) of
        Inl e \<Rightarrow>
          fst (addComponent platform name w) = Some 1
          \<and> tree (snd (addComponent platform name w)) = ?d
      | Inr d1 \<Rightarrow>
          fst (addComponent platform name w) = None
          \<and> tree (snd (addComponent platform name w)) = graft d1 (segs ?t) X"
    by blast
  have same_tree: "\<not> fst (existsSync ?t w')" if "tree w' = ?d" for w'
    using assms(2) that by (simp add: existsSync_def)
  show ?thesis
  proof (cases "e s")
    case None
    let ?e1 = "e(s \<mapsto> Dir (\<lambda>_. None))"
    let ?d1 = "graft ?d q ?e1"
    let ?d3 = "graft ?d q (e(s \<mapsto> Dir X))"
    have mk: "mkdirp ?d (segs ?t) = Inr ?d1"
      unfolding p using mkdirp_last [OF rq, of s] None by simp
    have r1: "resolve ?d1 q = Inr (Dir ?e1)"
      by (rule resolve_graft [OF rq])
    have "graft ?d1 (q @ [s]) X = graft ?d1 q (?e1(s \<mapsto> Dir X))"
      by (rule graft_append [OF r1]) simp
    also have "\<dots> = ?d3"
      by (simp add: graft_graft [OF rq])
    finally have g: "graft ?d1 (segs ?t) X = ?d3"
      by (simp add: p)
    define wa where "wa = snd (addComponent platform name w)"
    have wa: "tree wa = ?d3" "cwd wa = cwd w" and ok_add: "fst (addComponent platform name w) = None"
      using add cw by (simp_all add: wa_def mk g)
    have r3: "resolve ?d3 q = Inr (Dir (e(s \<mapsto> Dir X)))"
      by (rule resolve_graft [OF rq])
    have st3: "stat ?d3 ?t = Inr (Dir X)"
      by (simp add: stat_Dir p resolve_append [OF r3])
    have ex: "fst (existsSync (path_join (cwd wa) name) wa)"
      by (simp add: existsSync_def wa st3)
    have u: "(e(s \<mapsto> Dir X))(s := None) = e"
      using None by (simp add: fun_upd_idem)
    have "rm_rf ?d3 (segs ?t) = graft ?d3 q ((e(s \<mapsto> Dir X))(s := None))"
      unfolding p by (rule rm_rf_last [OF r3])
    also have "\<dots> = ?d"
      unfolding u by (simp add: graft_graft [OF rq] graft_same [OF rq])
    finally have restored: "rm_rf ?d3 (segs ?t) = ?d" .
    have rs: "rmSync ?t (called (ExistsSync ?t) wa) =
        (None, called (RmSync ?t) ((called (ExistsSync ?t) wa)\<lparr>tree := ?d\<rparr>))"
      by (simp add: rmSync_def called_fields wa st3 ne restored)
    have rem: "removeComponent platform name wa =
        (None, console_log (SuccessfullyRemoved name platform)
                 (called (RmSync ?t) ((called (ExistsSync ?t) wa)\<lparr>tree := ?d\<rparr>)))"
      using remove_outcome(1) [OF assms(1) ex] by (simp add: wa rs)
    have t: "tree (snd (removeComponent platform name wa)) = ?d"
      by (simp add: rem console_log_def called_def)
    show ?thesis
      using t same_tree [OF t] ok_add rem by (simp add: wa_def)
  next
    case (Some n)
    have rp: "resolve ?d (segs ?t) = Inr n"
      unfolding p using resolve_append [OF rq, of s] Some by simp
    with st obtain c where n: "n = File c" and enotdir: "err = ENOTDIR"
      by (cases n) (auto simp: stat_def split: if_splits)
    have mk: "mkdirp ?d (segs ?t) = Inl EEXIST"
      using rp n by (simp add: mkdirp_file)
    define wa where "wa = snd (addComponent platform name w)"
    have wa: "tree wa = ?d" "cwd wa = cwd w"
      using add cw by (simp_all add: wa_def mk)
    have nex: "\<not> fst (existsSync (path_join (cwd wa) name) wa)"
      using same_tree [OF wa(1)] by (simp add: wa)
    from remove_outcome(2) [OF assms(1) nex]
    have t: "tree (snd (removeComponent platform name wa)) = ?d"
      by (simp add: wa)
    show ?thesis
      using t same_tree [OF t] st enotdir by (simp add: wa_def)
  qed
qed

theorem add_then_remove_restores_witness:
  "''react-native'' \<in> {''next'', ''expo'', ''react-native''}
   \<and> \<not> fst (existsSync (path_join (cwd empty_project) ''profile'') empty_project)
   \<and> resolve (tree empty_project) (butlast (segs (path_join (cwd empty_project) ''profile''))) =
        Inr (Dir (\<lambda>_. None))
   \<and> stat (tree empty_project) (path_join (cwd empty_project) ''profile'') = Inl ENOENT
   \<and> fst (addComponent ''react-native'' ''profile'' empty_project) = None
   \<and> fst (removeComponent ''react-native'' ''profile''
             (snd (addComponent ''react-native'' ''profile'' empty_project))) = None
   \<and> tree (snd (removeComponent ''react-native'' ''profile''
             (snd (addComponent ''react-native'' ''profile'' empty_project)))) = tree empty_project"
proof -
  have p: "''react-native'' \<in> {''next'', ''expo'', ''react-native''}" by simp
  have s: "stat (tree empty_project) (path_join (cwd empty_project) ''profile'') = Inl ENOENT"
    by (simp add: stat_def empty_project_fields demo_join)
  have x: "\<not> fst (existsSync (path_join (cwd empty_project) ''profile'') empty_project)"
    by (simp add: existsSync_def s)
  have r: "resolve (tree empty_project) (butlast (segs (path_join (cwd empty_project) ''profile''))) =
        Inr (Dir (\<lambda>_. None))"
    by (simp add: empty_project_fields demo_join)
  show ?thesis
    using p s x r add_then_remove_restores [OF p x r] by simp
qed

text \<open>
  Without the condition on the parent the round trip does not restore the tree:
  \<^verbatim>\<open>mkdirSync\<close> is called with \<^verbatim>\<open>recursive: true\<close>, so for the name \<^verbatim>\<open>a/b\<close> in
  an empty working directory \<^verbatim>\<open>add\<close> creates \<^verbatim>\<open>a\<close> and \<^verbatim>\<open>a/b\<close>,
  \<^verbatim>\<open>remove\<close> deletes \<^verbatim>\<open>a/b\<close> only, and the directory \<^verbatim>\<open>a\<close> stays behind.
\<close>

theorem nested_name_leaves_parent:
  "\<not> fst (existsSync (path_join (cwd empty_project) ''a/b'') empty_project)
   \<and> fst (addComponent ''next'' ''a/b'' empty_project) = None
   \<and> fst (removeComponent ''next'' ''a/b'' (snd (addComponent ''next'' ''a/b'' empty_project))) = None
   \<and> resolve (tree empty_project) [''app'', ''a''] = Inl ENOENT
   \<and> resolve (tree (snd (removeComponent ''next'' ''a/b''
                        (snd (addComponent ''next'' ''a/b'' empty_project))))) [''app'', ''a'']
       \<noteq> Inl ENOENT
   \<and> tree (snd (removeComponent ''next'' ''a/b'' (snd (addComponent ''next'' ''a/b'' empty_project))))
       \<noteq> tree empty_project"
proof -
  have x: "\<not> fst (existsSync (path_join (cwd empty_project) ''a/b'') empty_project)"
    by (simp add: run_defs empty_project_def demo_cwd_def)
  have a: "fst (addComponent ''next'' ''a/b'' empty_project) = None"
    by (simp add: run_defs empty_project_def demo_cwd_def)
  have r: "fst (removeComponent ''next'' ''a/b'' (snd (addComponent ''next'' ''a/b'' empty_project))) = None"
    by (simp add: run_defs empty_project_def demo_cwd_def)
  have t0: "resolve (tree empty_project) [''app'', ''a''] = Inl ENOENT"
    by (simp add: empty_project_def)
  have t1: "resolve (tree (snd (removeComponent ''next'' ''a/b''
                        (snd (addComponent ''next'' ''a/b'' empty_project))))) [''app'', ''a'']
       = Inr (Dir (\<lambda>_. None))"
    by (simp add: run_defs empty_project_def demo_cwd_def)
  from t0 t1 have "tree (snd (removeComponent ''next'' ''a/b'' (snd (addComponent ''next'' ''a/b'' empty_project))))
       \<noteq> tree empty_project"
    by auto
  with x a r t0 t1 show ?thesis
    by simp
qed




text \<open>
  Claim C5, amended.  For every name whose target is missing with nothing but
  directories on the way to it (the existence check fails with \<^verbatim>\<open>ENOENT\<close>), adding
  for platform \<^verbatim>\<open>expo\<close> succeeds with status 0 and leaves at the target a directory
  holding exactly two files: \<^verbatim>\<open>index.tsx\<close>, whose exported function is named by the
  name as given followed by \<^verbatim>\<open>Screen\<close> and whose title text is the name as given
  followed by \<^verbatim>\<open> Screen\<close>, and \<^verbatim>\<open>styles.js\<close>, which exports a style sheet with a
  \<^verbatim>\<open>container\<close> rule.
\<close>

theorem expo_add_scaffolds:
  assumes "stat (tree w) (path_join (cwd w) name) = Inl ENOENT"
  shows \<open>fst (addComponent ''expo'' name w) = None
    \<and> run (''expo'' # ''add'' # name # rest) u w = Some (0, snd (addComponent ''expo'' name w))
    \<and> resolve (tree (snd (addComponent ''expo'' name w))) (segs (path_join (cwd w) name)) =
        Inr (Dir ((\<lambda>_. None)(''index.tsx'' \<mapsto> File (expoIndexContent name),
                              ''styles.js'' \<mapsto> File expoStylesContent)))
    \<and> sublist (''export default function '' @ name @ ''Screen('') (expoIndexContent name)
    \<and> sublist (''<Text style={styles.title}>'' @ name @ '' Screen</Text>'') (expoIndexContent name)
    \<and> sublist ''export default StyleSheet.create({\<newline>  container: {'' expoStylesContent\<close>
proof -
  let ?t = "path_join (cwd w) name"
  from mkdirp_at_missing [OF assms] obtain d1 where
    mk: "mkdirp (tree w) (segs ?t) = Inr d1" and fr: "resolve d1 (segs ?t) = Inr (Dir (\<lambda>_. None))"
    by blast
  note c = create_absent(2) [OF missing_not_exists [OF assms]]
  have a: "fst (addComponent ''expo'' name w) = None"
    and t: "tree (snd (addComponent ''expo'' name w)) =
         graft d1 (segs ?t) ((\<lambda>_. None)(''index.tsx'' \<mapsto> File (expoIndexContent name),
                              ''styles.js'' \<mapsto> File expoStylesContent))"
    by (simp_all add: addComponent_def c Let_def mk console_log_def)
  have r: "run (''expo'' # ''add'' # name # rest) u w = Some (0, snd (addComponent ''expo'' name w))"
    using a by (cases "addComponent ''expo'' name w") (auto simp: run_add)
  have s1: "sublist (''export default function '' @ name @ ''Screen('') (expoIndexContent name)"
    unfolding sublist_def expoIndexContent_def
    by (rule exI [of _ "''import React from 'react';\<newline>import { View, Text, StyleSheet } from 'react-native';\<newline>\<newline>''"])
       (rule exI, simp)
  have s2: "sublist (''<Text style={styles.title}>'' @ name @ '' Screen</Text>'') (expoIndexContent name)"
    unfolding sublist_def expoIndexContent_def
    by (rule exI [of _ "''import React from 'react';\<newline>import { View, Text, StyleSheet } from 'react-native';\<newline>\<newline>export default function '' @ name @ ''Screen() {\<newline>  return (\<newline>    <View style={styles.container}>\<newline>      ''"])
       (rule exI, simp)
  have s3: "sublist ''export default StyleSheet.create({\<newline>  container: {'' expoStylesContent"
    unfolding sublist_def expoStylesContent_def
    by (rule exI [of _ "''import { StyleSheet } from 'react-native';\<newline>\<newline>''"])
       (rule exI, simp)
  show ?thesis
    using a r s1 s2 s3 by (simp add: t resolve_graft [OF fr])
qed

theorem expo_add_scaffolds_witness:
  \<open>stat (tree empty_project) (path_join (cwd empty_project) ''login'') = Inl ENOENT
   \<and> run [''expo'', ''add'', ''login''] demo_user empty_project =
        Some (0, snd (addComponent ''expo'' ''login'' empty_project))
   \<and> resolve (tree (snd (addComponent ''expo'' ''login'' empty_project))) [''app'', ''login''] =
        Inr (Dir ((\<lambda>_. None)(''index.tsx'' \<mapsto> File (expoIndexContent ''login''),
                              ''styles.js'' \<mapsto> File expoStylesContent)))
   \<and> sublist ''export default function loginScreen('' (expoIndexContent ''login'')
   \<and> sublist ''<Text style={styles.title}>login Screen</Text>'' (expoIndexContent ''login'')\<close>
proof -
  have s: "stat (tree empty_project) (path_join (cwd empty_project) ''login'') = Inl ENOENT"
    by (simp add: stat_def empty_project_fields demo_join)
  show ?thesis
    using s expo_add_scaffolds [OF s, of "[]" demo_user]
    by (simp add: empty_project_fields demo_join)
qed

text \<open>
  As for \<^verbatim>\<open>next\<close>, a regular file on the way to the target makes the creation of
  the directory fail: with the regular file \<^verbatim>\<open>notes\<close> and the name
  \<^verbatim>\<open>notes/login\<close> the handler for \<^verbatim>\<open>expo\<close> ends in \<^verbatim>\<open>ENOTDIR\<close> and nothing is
  created.
\<close>

theorem file_on_path_blocks_expo:
  "\<not> fst (existsSync (path_join (cwd busy_project) ''notes/login'') busy_project)
   \<and> addComponent ''expo'' ''notes/login'' busy_project =
       (Some 1, busy_project
          \<lparr>calls := [ExistsSync \<lparr>segs = [''app'', ''notes'', ''login''], trailing = False\<rparr>,
                     MkdirSync \<lparr>segs = [''app'', ''notes'', ''login''], trailing = False\<rparr>],
           console := [ErrorCreating (SystemError ENOTDIR)]\<rparr>)
   \<and> resolve (tree (snd (addComponent ''expo'' ''notes/login'' busy_project))) [''app'', ''notes'', ''login'']
       = Inl ENOTDIR"
  by (simp add: run_defs busy_project_def demo_cwd_def)

text \<open>
  Claim C6.  With three or more tokens, when the first is not a platform, or the first
  is a platform and the second is not an action, the run prints the error naming the
  offending token, then the usage help, and exits with status 1; the tree is unchanged
  and no call into \<^verbatim>\<open>fs\<close> has been made.
\<close>

theorem invalid_tokens_rejected:
  assumes "platform \<notin> {''next'', ''expo'', ''react-native''}
           \<or> (platform \<in> {''next'', ''expo'', ''react-native''} \<and> action \<notin> {''add'', ''remove''})"
  shows "let offending = (if platform \<notin> {''next'', ''expo'', ''react-native''}
                          then InvalidPlatform platform else InvalidAction action);
             w' = w\<lparr>console := console w @ [offending, Help]\<rparr>
         in run (platform # action # name # rest) u w = Some (1, w')
          \<and> tree w' = tree w \<and> calls w' = calls w"
  using assms
  by (auto simp: run_def parseArguments_def displayHelp_def console_log_def Let_def)

theorem invalid_tokens_rejected_witness:
  "''android'' \<notin> {''next'', ''expo'', ''react-native''}
   \<and> run [''android'', ''add'', ''login'', ''extra''] demo_user empty_project =
         Some (1, empty_project\<lparr>console := [InvalidPlatform ''android'', Help]\<rparr>)
   \<and> ''expo'' \<in> {''next'', ''expo'', ''react-native''} \<and> ''rename'' \<notin> {''add'', ''remove''}
   \<and> run [''expo'', ''rename'', ''login''] demo_user empty_project =
         Some (1, empty_project\<lparr>console := [InvalidAction ''rename'', Help]\<rparr>)"
  using invalid_tokens_rejected [where platform = "''android''" and action = "''add''"
      and name = "''login''" and rest = "[''extra'']" and u = demo_user and w = empty_project]
    invalid_tokens_rejected [where platform = "''expo''" and action = "''rename''"
      and name = "''login''" and rest = "[]" and u = demo_user and w = empty_project]
  by (simp add: Let_def empty_project_fields)

text \<open>
  Claim C7.  The number of tokens decides the route: none leads to the banner and the
  interactive prompt; one or two lead to the argument-count error, the usage help and
  status 1 with the file system untouched; with three or more the run is the run on
  the first three tokens, whatever follows them and whatever the person at the terminal
  would have answered.  Of those three the first is the platform, the second the
  action and the third the name: the first is checked against the platforms, then the
  second selects \<^verbatim>\<open>addComponent\<close> or \<^verbatim>\<open>removeComponent\<close>, which is called with the
  first and the third, and any other second token is reported as an invalid action.
\<close>

theorem routing_by_token_count:
  "(args = [] \<longrightarrow> parseArguments args u w = interactiveCLI u (welcome_banner w))
   \<and> (0 < length args \<and> length args < 3 \<longrightarrow>
        run args u w = Some (1, w\<lparr>console := console w @ [NotEnoughArguments, Help]\<rparr>))
   \<and> (3 \<le> length args \<longrightarrow> run args u w = run (take 3 args) u' w)
   \<and> parseArguments (platform # action # name # rest) u w =
        (if platform \<notin> {''next'', ''expo'', ''react-native''}
           then Some (Some 1, w\<lparr>console := console w @ [InvalidPlatform platform, Help]\<rparr>)
         else if action = ''add'' then Some (addComponent platform name w)
         else if action = ''remove'' then Some (removeComponent platform name w)
         else Some (Some 1, w\<lparr>console := console w @ [InvalidAction action, Help]\<rparr>))"
proof (intro conjI impI)
  assume "args = []"
  then show "parseArguments args u w = interactiveCLI u (welcome_banner w)"
    by (simp add: parseArguments_def)
next
  assume "0 < length args \<and> length args < 3"
  then show "run args u w = Some (1, w\<lparr>console := console w @ [NotEnoughArguments, Help]\<rparr>)"
    by (simp add: run_def parseArguments_def displayHelp_def console_log_def)
next
  assume "3 \<le> length args"
  then obtain a b c rest where "args = a # b # c # rest"
    by (auto simp: numeral_3_eq_3 Suc_le_length_iff)
  then have "parseArguments args u w = parseArguments (take 3 args) u' w"
    by (simp add: parseArguments_def Let_def)
  then show "run args u w = run (take 3 args) u' w"
    by (simp add: run_def)
next
  show "parseArguments (platform # action # name # rest) u w =
        (if platform \<notin> {''next'', ''expo'', ''react-native''}
           then Some (Some 1, w\<lparr>console := console w @ [InvalidPlatform platform, Help]\<rparr>)
         else if action = ''add'' then Some (addComponent platform name w)
         else if action = ''remove'' then Some (removeComponent platform name w)
         else Some (Some 1, w\<lparr>console := console w @ [InvalidAction action, Help]\<rparr>))"
    by (auto simp: parseArguments_def displayHelp_def console_log_def Let_def)
qed

theorem routing_by_token_count_witness:
  "parseArguments [] demo_user empty_project = interactiveCLI demo_user (welcome_banner empty_project)
   \<and> 0 < length [''next'', ''add''] \<and> length [''next'', ''add''] < 3
   \<and> run [''next'', ''add''] demo_user empty_project =
        Some (1, empty_project\<lparr>console := [NotEnoughArguments, Help]\<rparr>)
   \<and> 3 \<le> length [''expo'', ''remove'', ''login'', ''extra'']
   \<and> run [''expo'', ''remove'', ''login'', ''extra''] demo_user busy_project =
       run [''expo'', ''remove'', ''login''] demo_user busy_project
   \<and> parseArguments [''expo'', ''remove'', ''login'', ''extra''] demo_user busy_project =
       Some (removeComponent ''expo'' ''login'' busy_project)
   \<and> fst (removeComponent ''expo'' ''login'' busy_project) = None
   \<and> console (snd (removeComponent ''expo'' ''login'' busy_project)) =
       [SuccessfullyRemoved ''login'' ''expo'']
   \<and> resolve (tree (snd (removeComponent ''expo'' ''login'' busy_project))) [''app'', ''login''] =
       Inl ENOENT
   \<and> parseArguments [''next'', ''add'', ''login''] demo_user busy_project =
       Some (addComponent ''next'' ''login'' busy_project)
   \<and> parseArguments [''login'', ''add'', ''next''] demo_user busy_project =
       Some (Some 1, busy_project\<lparr>console := [InvalidPlatform ''login'', Help]\<rparr>)"
proof -
  have r: "fst (removeComponent ''expo'' ''login'' busy_project) = None"
    "console (snd (removeComponent ''expo'' ''login'' busy_project)) =
       [SuccessfullyRemoved ''login'' ''expo'']"
    "resolve (tree (snd (removeComponent ''expo'' ''login'' busy_project))) [''app'', ''login''] =
       Inl ENOENT"
    by (simp_all add: run_defs busy_project_def demo_cwd_def)
  show ?thesis
    using r
      routing_by_token_count [where args = "[]" and u = demo_user and w = empty_project
        and u' = demo_user and platform = "''next''" and action = "''add''"
        and name = "''login''" and rest = "[]"]
      routing_by_token_count [where args = "[''next'', ''add'']" and u = demo_user
        and w = empty_project and u' = demo_user and platform = "''login''"
        and action = "''add''" and name = "''next''" and rest = "[]"]
      routing_by_token_count [where args = "[''expo'', ''remove'', ''login'', ''extra'']"
        and u = demo_user and w = busy_project and u' = demo_user and platform = "''expo''"
        and action = "''remove''" and name = "''login''" and rest = "[''extra'']"]
      routing_by_token_count [where args = "[]" and u = demo_user and w = busy_project
        and u' = demo_user and platform = "''next''" and action = "''add''"
        and name = "''login''" and rest = "[]"]
      routing_by_token_count [where args = "[]" and u = demo_user and w = busy_project
        and u' = demo_user and platform = "''login''" and action = "''add''"
        and name = "''next''" and rest = "[]"]
    by (simp add: empty_project_fields busy_project_fields)
qed

text \<open>
  Claim C8.  The name prompt accepts an input exactly when it has a character that is
  not white space, which is exactly when it is not empty after \<^verbatim>\<open>trim\<close>, and rejects
  every other input with the message \<^verbatim>\<open>Name cannot be empty\<close>.  The white space,
  among the code units below 256 that an input is made of here, is tab, line feed,
  vertical tab, form feed, carriage return, space and U+00A0.  After any number of
  rejected lines the first accepted line is handed on as it was typed, and what happens
  next is what the dispatcher does with the chosen platform, the chosen action and
  that line.
\<close>

theorem name_validation:
  "validate input =
     (if \<exists>c\<in>set input. \<not> isWhiteSpace c then Accepted else Rejected ''Name cannot be empty'')
   \<and> (trim input \<noteq> [] \<longleftrightarrow> (\<exists>c\<in>set input. \<not> isWhiteSpace c))
   \<and> (isWhiteSpace c \<longleftrightarrow>
        c \<in> {CHR 0x09, CHR 0x0A, CHR 0x0B, CHR 0x0C, CHR 0x0D, CHR 0x20, CHR 0xA0})
   \<and> ((\<forall>x\<in>set rejected. \<forall>c\<in>set x. isWhiteSpace c) \<and> (\<exists>c\<in>set name. \<not> isWhiteSpace c) \<longrightarrow>
        interactiveCLI (u\<lparr>typed := rejected @ name # rest\<rparr>) w =
        parseArguments
          [list_prompt [''next'', ''expo'', ''react-native''] (platform_keys u),
           list_prompt [''add'', ''remove''] (action_keys u),
           name]
          u'
          (w\<lparr>console := console w @
                replicate (length rejected) (PromptError ''Name cannot be empty'')\<rparr>))"
proof (intro conjI impI)
  show "validate input =
     (if \<exists>c\<in>set input. \<not> isWhiteSpace c then Accepted else Rejected ''Name cannot be empty'')"
    by (rule validate_iff)
next
  show "trim input \<noteq> [] \<longleftrightarrow> (\<exists>c\<in>set input. \<not> isWhiteSpace c)"
    by (auto simp: trim_empty_iff)
next
  show "isWhiteSpace c \<longleftrightarrow>
        c \<in> {CHR 0x09, CHR 0x0A, CHR 0x0B, CHR 0x0C, CHR 0x0D, CHR 0x20, CHR 0xA0}"
    by (simp add: isWhiteSpace_def)
next
  assume a: "(\<forall>x\<in>set rejected. \<forall>c\<in>set x. isWhiteSpace c) \<and> (\<exists>c\<in>set name. \<not> isWhiteSpace c)"
  let ?p = "list_prompt [''next'', ''expo'', ''react-native''] (platform_keys u)"
  let ?a = "list_prompt [''add'', ''remove''] (action_keys u)"
  have p: "?p \<in> {''next'', ''expo'', ''react-native''}"
    using list_prompt_member [of "[''next'', ''expo'', ''react-native'']" "platform_keys u"] by simp
  have ac: "?a \<in> {''add'', ''remove''}"
    using list_prompt_member [of "[''add'', ''remove'']" "action_keys u"] by simp
  from a have i: "input_prompt (rejected @ name # rest) w =
           Some (name, w\<lparr>console := console w @
                   replicate (length rejected) (PromptError ''Name cannot be empty'')\<rparr>)"
    by (intro input_prompt_accepts) auto
  show "interactiveCLI (u\<lparr>typed := rejected @ name # rest\<rparr>) w =
        parseArguments [?p, ?a, name] u'
          (w\<lparr>console := console w @
                replicate (length rejected) (PromptError ''Name cannot be empty'')\<rparr>)"
    using p ac by (auto simp: interactiveCLI_def parseArguments_def i Let_def)
qed

theorem name_validation_witness:
  "isWhiteSpace CHR '' '' \<and> \<not> isWhiteSpace CHR ''l''
   \<and> validate [CHR 0x09, CHR 0xA0, CHR 0x0A] = Rejected ''Name cannot be empty''
   \<and> validate ''  '' = Rejected ''Name cannot be empty''
   \<and> validate '' login '' = Accepted
   \<and> interactiveCLI (demo_user\<lparr>typed := [''  '', [], '' login '']\<rparr>) empty_project =
       parseArguments [''next'', ''add'', '' login ''] demo_user
         (empty_project\<lparr>console := [PromptError ''Name cannot be empty'',
                                    PromptError ''Name cannot be empty'']\<rparr>)"
proof -
  have h: "(\<forall>x\<in>set [''  '', []]. \<forall>c\<in>set x. isWhiteSpace c) \<and> (\<exists>c\<in>set '' login ''. \<not> isWhiteSpace c)"
    by (simp add: isWhiteSpace_def)
  show ?thesis
    using h name_validation [where input = "''  ''" and rejected = "[''  '', []]" and name = "'' login ''"
        and u = demo_user and rest = "[]" and w = empty_project and u' = demo_user]
      name_validation [where input = "'' login ''" and rejected = "[]" and name = "'' login ''"
        and u = demo_user and rest = "[]" and w = empty_project and u' = demo_user]
      name_validation [where input = "[CHR 0x09, CHR 0xA0, CHR 0x0A]" and rejected = "[]"
        and name = "'' login ''" and u = demo_user and rest = "[]" and w = empty_project
        and u' = demo_user]
    by (simp add: isWhiteSpace_def empty_project_fields demo_user_def list_prompt_def numeral_2_eq_2)
qed

text \<open>
  Claim C9.  The handlers for \<^verbatim>\<open>expo\<close> and \<^verbatim>\<open>react-native\<close> are equal; the handler
  for \<^verbatim>\<open>next\<close> leaves the same state as they do, is equal to them when the target
  exists, and differs from them when it does not only in the wording of the error
  (\<^verbatim>\<open>Component/page\<close> for \<^verbatim>\<open>Component\<close>).  So the platform given to \<^verbatim>\<open>remove\<close>
  changes neither the resulting tree, nor the calls into \<^verbatim>\<open>fs\<close>, nor the exit.
\<close>

theorem remove_handlers_agree:
  \<open>removeExpoComponents name w = removeReactNativeComponents name w
   \<and> snd (removeNextComponents name w) = snd (removeExpoComponents name w)
   \<and> (fst (existsSync (path_join (cwd w) name) w) \<longrightarrow>
        removeNextComponents name w = removeExpoComponents name w
        \<and> removeExpoComponents name w =
            rmSync (path_join (cwd w) name) (called (ExistsSync (path_join (cwd w) name)) w))
   \<and> (\<not> fst (existsSync (path_join (cwd w) name) w) \<longrightarrow>
        fst (removeNextComponents name w) =
          Some (Error (''Component/page "'' @ name @ ''" doesn't exist''))
        \<and> fst (removeExpoComponents name w) =
          Some (Error (''Component "'' @ name @ ''" doesn't exist'')))
   \<and> (p \<in> {''next'', ''expo'', ''react-native''} \<and> p' \<in> {''next'', ''expo'', ''react-native''} \<longrightarrow>
        fst (removeComponent p name w) = fst (removeComponent p' name w)
        \<and> tree (snd (removeComponent p name w)) = tree (snd (removeComponent p' name w))
        \<and> calls (snd (removeComponent p name w)) = calls (snd (removeComponent p' name w)))\<close>
proof (cases "fst (existsSync (path_join (cwd w) name) w)")
  case True
  note eq = remove_existing [OF True]
  show ?thesis
    using True
    by (auto simp: eq removeComponent_def console_log_def split: prod.splits option.splits)
next
  case False
  note eq = remove_missing [OF False]
  show ?thesis
    using False
    by (auto simp: eq removeComponent_def console_log_def called_def split: prod.splits option.splits)
qed

theorem remove_handlers_agree_witness:
  \<open>fst (existsSync (path_join (cwd busy_project) ''login'') busy_project)
   \<and> removeNextComponents ''login'' busy_project = removeExpoComponents ''login'' busy_project
   \<and> removeExpoComponents ''login'' busy_project = removeReactNativeComponents ''login'' busy_project
   \<and> \<not> fst (existsSync (path_join (cwd busy_project) ''ghost'') busy_project)
   \<and> fst (removeNextComponents ''ghost'' busy_project) =
        Some (Error ''Component/page "ghost" doesn't exist'')
   \<and> fst (removeExpoComponents ''ghost'' busy_project) =
        Some (Error ''Component "ghost" doesn't exist'')
   \<and> snd (removeNextComponents ''ghost'' busy_project) = snd (removeExpoComponents ''ghost'' busy_project)
   \<and> ''next'' \<in> {''next'', ''expo'', ''react-native''} \<and> ''expo'' \<in> {''next'', ''expo'', ''react-native''}
   \<and> tree (snd (removeComponent ''next'' ''login'' busy_project)) =
       tree (snd (removeComponent ''expo'' ''login'' busy_project))\<close>
proof -
  have e: "fst (existsSync (path_join (cwd busy_project) ''login'') busy_project)"
    by (simp add: existsSync_def stat_def busy_project_fields demo_join)
  have n: "\<not> fst (existsSync (path_join (cwd busy_project) ''ghost'') busy_project)"
    by (simp add: existsSync_def stat_def busy_project_fields demo_join)
  show ?thesis
    using e n
      remove_handlers_agree [where name = "''login''" and w = busy_project
        and p = "''next''" and p' = "''expo''"]
      remove_handlers_agree [where name = "''ghost''" and w = busy_project
        and p = "''next''" and p' = "''expo''"]
    by auto
qed

text \<open>
  Claim C10.  The dispatcher hands the third token to the handler as it is.  With the
  empty string as name the target is the working directory itself, so, the working
  directory being there, \<^verbatim>\<open>add\<close> fails with the already-exists error, and
  \<^verbatim>\<open>remove\<close> calls \<^verbatim>\<open>rmSync\<close> on the working directory.  That call deletes the
  working directory with all it holds, unless the working directory is the root, which
  \<^verbatim>\<open>rmSync\<close> refuses: then nothing is deleted and the run ends with status 1.
\<close>

theorem empty_name_targets_cwd:
  assumes "platform \<in> {''next'', ''expo'', ''react-native''}"
    and "list_all plain (segs (cwd w))" and "\<not> trailing (cwd w)"
    and "resolve (tree w) (segs (cwd w)) = Inr (Dir e)"
  shows \<open>parseArguments (platform # ''add'' # name # rest) u w = Some (addComponent platform name w)
    \<and> parseArguments (platform # ''remove'' # name # rest) u w = Some (removeComponent platform name w)
    \<and> path_join (cwd w) [] = cwd w
    \<and> addComponent platform [] w =
        (Some 1,
         console_log
           (ErrorCreating (Error
              ((if platform = ''next'' then ''Component/page "'' else ''Component "'')
                 @ [] @ ''" already exists'')))
           (called (ExistsSync (cwd w)) w))
    \<and> calls (snd (removeComponent platform [] w)) = calls w @ [ExistsSync (cwd w), RmSync (cwd w)]
    \<and> (segs (cwd w) \<noteq> [] \<longrightarrow>
         fst (removeComponent platform [] w) = None
         \<and> tree (snd (removeComponent platform [] w)) = rm_rf (tree w) (segs (cwd w))
         \<and> resolve (tree (snd (removeComponent platform [] w))) (segs (cwd w)) = Inl ENOENT)
    \<and> (segs (cwd w) = [] \<longrightarrow>
         fst (removeComponent platform [] w) = Some 1
         \<and> console (snd (removeComponent platform [] w)) =
             console w @ [ErrorRemoving (SystemError EBUSY)]
         \<and> tree (snd (removeComponent platform [] w)) = tree w)\<close>
proof -
  have j: "path_join (cwd w) [] = cwd w"
    by (rule join_empty [OF assms(2,3)])
  have st: "stat (tree w) (cwd w) = Inr (Dir e)"
    by (simp add: stat_Dir assms(4))
  have ex: "fst (existsSync (path_join (cwd w) []) w)"
    by (simp add: j existsSync_def st)
  have pa: "parseArguments (platform # ''add'' # name # rest) u w = Some (addComponent platform name w)"
    and pr: "parseArguments (platform # ''remove'' # name # rest) u w = Some (removeComponent platform name w)"
    using assms(1) by (auto simp: parseArguments_def)
  have ad: \<open>addComponent platform [] w =
        (Some 1,
         console_log
           (ErrorCreating (Error
              ((if platform = ''next'' then ''Component/page "'' else ''Component "'')
                 @ [] @ ''" already exists'')))
           (called (ExistsSync (cwd w)) w))\<close>
    using assms(1) create_existing [OF ex]
    by (auto simp: addComponent_def j)
  have rm: "removeComponent platform [] w =
      (case rmSync (cwd w) (called (ExistsSync (cwd w)) w) of
         (None, w') \<Rightarrow> (None, console_log (SuccessfullyRemoved [] platform) w')
       | (Some error, w') \<Rightarrow> (Some 1, console_log (ErrorRemoving error) w'))"
    using assms(1) remove_existing [OF ex]
    by (auto simp: removeComponent_def j)
  have rs: "rmSync (cwd w) (called (ExistsSync (cwd w)) w) =
      (if segs (cwd w) = []
       then (Some (SystemError EBUSY), called (RmSync (cwd w)) (called (ExistsSync (cwd w)) w))
       else (None, called (RmSync (cwd w))
                     ((called (ExistsSync (cwd w)) w)\<lparr>tree := rm_rf (tree w) (segs (cwd w))\<rparr>)))"
    by (simp add: rmSync_def called_fields st)
  have c: "calls (snd (removeComponent platform [] w)) = calls w @ [ExistsSync (cwd w), RmSync (cwd w)]"
    unfolding rm rs by (simp add: called_def console_log_def)
  have g: "segs (cwd w) \<noteq> [] \<longrightarrow>
         fst (removeComponent platform [] w) = None
         \<and> tree (snd (removeComponent platform [] w)) = rm_rf (tree w) (segs (cwd w))
         \<and> resolve (tree (snd (removeComponent platform [] w))) (segs (cwd w)) = Inl ENOENT"
    unfolding rm rs using rm_rf_gone [OF assms(4)]
    by (simp add: called_def console_log_def)
  have b: "segs (cwd w) = [] \<longrightarrow>
         fst (removeComponent platform [] w) = Some 1
         \<and> console (snd (removeComponent platform [] w)) =
             console w @ [ErrorRemoving (SystemError EBUSY)]
         \<and> tree (snd (removeComponent platform [] w)) = tree w"
    unfolding rm rs by (simp add: called_def console_log_def)
  show ?thesis
    by (intro conjI pa pr j ad c g b)
qed

theorem empty_name_targets_cwd_witness:
  \<open>''next'' \<in> {''next'', ''expo'', ''react-native''}
   \<and> list_all plain (segs (cwd busy_project)) \<and> \<not> trailing (cwd busy_project)
   \<and> resolve (tree busy_project) (segs (cwd busy_project)) =
        Inr (Dir ((\<lambda>_. None)(''login'' \<mapsto> Dir (\<lambda>_. None), ''notes'' \<mapsto> File ''todo'')))
   \<and> run [''next'', ''add'', []] demo_user busy_project =
        Some (1, busy_project
                   \<lparr>calls := [ExistsSync \<lparr>segs = [''app''], trailing = False\<rparr>],
                    console := [ErrorCreating (Error ''Component/page "" already exists'')]\<rparr>)
   \<and> calls (snd (removeComponent ''next'' [] busy_project)) =
        [ExistsSync \<lparr>segs = [''app''], trailing = False\<rparr>,
         RmSync \<lparr>segs = [''app''], trailing = False\<rparr>]
   \<and> fst (removeComponent ''next'' [] busy_project) = None
   \<and> resolve (tree (snd (removeComponent ''next'' [] busy_project))) [''app''] = Inl ENOENT
   \<and> list_all plain (segs (cwd root_project)) \<and> \<not> trailing (cwd root_project)
   \<and> resolve (tree root_project) (segs (cwd root_project)) = Inr (Dir (tree root_project))
   \<and> calls (snd (removeComponent ''next'' [] root_project)) =
        [ExistsSync \<lparr>segs = [], trailing = False\<rparr>, RmSync \<lparr>segs = [], trailing = False\<rparr>]
   \<and> fst (removeComponent ''next'' [] root_project) = Some 1
   \<and> tree (snd (removeComponent ''next'' [] root_project)) = tree root_project\<close>
proof -
  have p: "''next'' \<in> {''next'', ''expo'', ''react-native''}" by simp
  have c: "list_all plain (segs (cwd busy_project))" "\<not> trailing (cwd busy_project)"
    by (simp_all add: busy_project_fields plain_app)
  have r: "resolve (tree busy_project) (segs (cwd busy_project)) =
        Inr (Dir ((\<lambda>_. None)(''login'' \<mapsto> Dir (\<lambda>_. None), ''notes'' \<mapsto> File ''todo'')))"
    by (simp add: busy_project_fields demo_cwd_def)
  have s: "segs demo_cwd = [''app'']"
    by (simp add: demo_cwd_def)
  have c0: "list_all plain (segs (cwd root_project))" "\<not> trailing (cwd root_project)"
    by (simp_all add: root_project_def)
  have r0: "resolve (tree root_project) (segs (cwd root_project)) = Inr (Dir (tree root_project))"
    by (simp add: root_project_def)
  have f0: "cwd root_project = \<lparr>segs = [], trailing = False\<rparr>" "calls root_project = []"
    by (simp_all add: root_project_def)
  show ?thesis
    using p c r c0 r0
      empty_name_targets_cwd [OF p c r, of "[]" "[]" demo_user]
      empty_name_targets_cwd [OF p c0 r0, of "[]" "[]" demo_user]
    by (simp add: run_def console_log_def called_def busy_project_fields s demo_cwd_def f0)
qed

end
